theory Spec2Isabelle
  imports Complex_Main "HOL-Library.Multiset" "HOL-Library.Char_ord" "HOL-Library.List_Lexorder"
begin

section \<open>Text: the sanitizer of database.py\<close>

text \<open>
  Python strings are modelled as HOL strings, the character with number \<open>n\<close> standing
  for the code point \<open>n\<close> (0 to 255). \<^verbatim>\<open>isprintable\<close> and \<^verbatim>\<open>isspace\<close> are
  Python's on that range: the controls 0-31 and 127-159, the no-break space 160 and the
  soft hyphen 173 are not printable; whitespace is 9-13, 28-32, 133 and 160. The case
  mappings \<^verbatim>\<open>upper\<close> and \<^verbatim>\<open>lower\<close> are written out for the ASCII letters only; a
  letter above 127 is taken as without case (for some of them Python's upper-case form
  lies outside the range).
\<close>

definition py_isprintable :: "char \<Rightarrow> bool" where
  "py_isprintable c =
     (let n = (of_char c :: nat) in (32 \<le> n \<and> n \<le> 126) \<or> (161 \<le> n \<and> n \<noteq> 173))"

definition py_isspace :: "char \<Rightarrow> bool" where
  "py_isspace c =
     (let n = (of_char c :: nat)
      in (9 \<le> n \<and> n \<le> 13) \<or> (28 \<le> n \<and> n \<le> 32) \<or> n = 133 \<or> n = 160)"

definition ascii_lowercase :: string where
  "ascii_lowercase = ''abcdefghijklmnopqrstuvwxyz''"

definition ascii_uppercase :: string where
  "ascii_uppercase = ''ABCDEFGHIJKLMNOPQRSTUVWXYZ''"

definition py_upper :: "char \<Rightarrow> char" where
  "py_upper c = (case map_of (zip ascii_lowercase ascii_uppercase) c of Some u \<Rightarrow> u | None \<Rightarrow> c)"

definition py_lower :: "char \<Rightarrow> char" where
  "py_lower c = (case map_of (zip ascii_uppercase ascii_lowercase) c of Some l \<Rightarrow> l | None \<Rightarrow> c)"

definition py_iscased :: "char \<Rightarrow> bool" where
  "py_iscased c = (c \<in> set ascii_lowercase \<or> c \<in> set ascii_uppercase)"

text \<open>\<^verbatim>\<open>str.strip()\<close>: leading and trailing whitespace removed.\<close>

definition py_strip :: "string \<Rightarrow> string" where
  "py_strip s = rev (dropWhile py_isspace (rev (dropWhile py_isspace s)))"

text \<open>
  \<^verbatim>\<open>str.title()\<close>: a cased character is upper-cased when the character before it is
  not cased (or there is none) and lower-cased otherwise; the flag is whether the
  previous character was cased.
\<close>

fun title_from :: "bool \<Rightarrow> string \<Rightarrow> string" where
  "title_from prev [] = []"
| "title_from prev (c # cs) =
     (if py_iscased c then (if prev then py_lower c else py_upper c) # title_from True cs
      else c # title_from False cs)"

definition py_title :: "string \<Rightarrow> string" where
  "py_title s = title_from False s"

text \<open>\<^verbatim>\<open>text[:m]\<close> for an integer \<open>m\<close>: a negative bound counts from the end.\<close>

definition py_slice_to :: "int \<Rightarrow> 'a list \<Rightarrow> 'a list" where
  "py_slice_to m xs = (if m < 0 then take (nat (int (length xs) + m)) xs else take (nat m) xs)"

text \<open>\<^verbatim>\<open>yaml_special_start = set(":{}[]&*#|>'\"%%@`")\<close>\<close>

definition yaml_special_start :: "char list" where
  "yaml_special_start = '':{}[]&*#|>'' @ [CHR 0x27, CHR 0x22] @ ''%%@'' @ [CHR 0x60]"

text \<open>\<^verbatim>\<open>_MARKDOWN_SPECIAL_RE = re.compile(r"([_*\[\]()~`>#+=|{}.!\-])")\<close>\<close>

definition markdown_special :: "char list" where
  "markdown_special = ''_*[]()~'' @ [CHR 0x60] @ ''>#+=|{}.!-''"

definition escape_markdown_chars :: "string \<Rightarrow> string" where
  "escape_markdown_chars s =
     concat (map (\<lambda>c. if c \<in> set markdown_special then [CHR 0x5C, c] else [c]) s)"

definition sanitize_text :: "string \<Rightarrow> int option \<Rightarrow> bool \<Rightarrow> string" where
  "sanitize_text text max_length escape_markdown =
     (if text = [] then []
      else
        let t1 = filter (\<lambda>c. py_isprintable c \<or> c \<in> set [CHR 0x0A, CHR 0x09]) text;
            t2 = py_strip t1;
            t3 = (if t2 \<noteq> [] \<and> hd t2 \<in> set yaml_special_start then CHR '' '' # t2 else t2);
            t4 = (if escape_markdown then escape_markdown_chars t3 else t3)
        in (case max_length of
              None \<Rightarrow> t4
            | Some m \<Rightarrow> if m \<noteq> 0 \<and> int (length t4) > m then py_slice_to m t4 else t4))"

definition format_description :: "string \<Rightarrow> string" where
  "format_description text =
     (let t = sanitize_text text None False
      in case t of [] \<Rightarrow> t | c # cs \<Rightarrow> py_upper c # cs)"

section \<open>The document store\<close>

text \<open>
  What the code raises. \<^verbatim>\<open>add_review\<close> signals a duplicate review with
  \<^verbatim>\<open>ValueError("User has already reviewed this card")\<close>.
\<close>

datatype py_exn = ValueError string | KeyError string | TypeError string | ZeroDivisionError

abbreviation DuplicateReview :: py_exn where
  "DuplicateReview \<equiv> ValueError ''User has already reviewed this card''"

text \<open>The review that \<^verbatim>\<open>add_review\<close> writes and the card that \<^verbatim>\<open>add_card\<close> writes.\<close>

record review =
  user_id :: int
  rating :: int
  comment :: string
  timestamp :: real

record card =
  category :: string
  title :: string
  video_id :: string
  description :: string
  reviews :: "review list"

text \<open>
  The TinyDB default table: the documents by id, in insertion order, and the table's
  cached next id (\<^verbatim>\<open>Table._next_id\<close>, unset until the first insertion of a process).
  Storage reads and writes are taken to succeed.
\<close>

record tinydb =
  docs :: "(int \<times> card) list"
  next_id :: "int option"

definition doc_ids :: "tinydb \<Rightarrow> int list" where
  "doc_ids d = map fst (docs d)"

definition db_get :: "tinydb \<Rightarrow> int \<Rightarrow> card option" where
  "db_get d i = map_of (docs d) i"

definition get_next_id :: "tinydb \<Rightarrow> int \<times> tinydb" where
  "get_next_id d =
     (case next_id d of
        Some n \<Rightarrow> (n, d\<lparr>next_id := Some (n + 1)\<rparr>)
      | None \<Rightarrow>
          (if docs d = [] then (1, d\<lparr>next_id := Some 2\<rparr>)
           else let m = fold max (doc_ids d) (hd (doc_ids d))
                in (m + 1, d\<lparr>next_id := Some (m + 2)\<rparr>)))"

definition db_insert :: "card \<Rightarrow> tinydb \<Rightarrow> (py_exn + int) \<times> tinydb" where
  "db_insert doc d =
     (let (i, d1) = get_next_id d
      in if i \<in> set (doc_ids d1) then (Inl (ValueError ''Document already exists''), d1)
         else (Inr i, d1\<lparr>docs := docs d1 @ [(i, doc)]\<rparr>))"

text \<open>\<^verbatim>\<open>db.update(fields, doc_ids=[i])\<close> and \<^verbatim>\<open>db.remove(doc_ids=[i])\<close> raise KeyError on an absent id.\<close>

definition db_update :: "(card \<Rightarrow> card) \<Rightarrow> int \<Rightarrow> tinydb \<Rightarrow> (py_exn + unit) \<times> tinydb" where
  "db_update f i d =
     (if i \<in> set (doc_ids d)
      then (Inr (), d\<lparr>docs := map (\<lambda>(k, c). if k = i then (k, f c) else (k, c)) (docs d)\<rparr>)
      else (Inl (KeyError ''doc_id''), d))"

definition db_remove :: "int \<Rightarrow> tinydb \<Rightarrow> (py_exn + unit) \<times> tinydb" where
  "db_remove i d =
     (if i \<in> set (doc_ids d)
      then (Inr (), d\<lparr>docs := filter (\<lambda>(k, c). k \<noteq> i) (docs d)\<rparr>)
      else (Inl (KeyError ''doc_id''), d))"

text \<open>
  The cached next id, once set, lies above every id of the table: so it is after the
  first insertion of a process, and insertion, update and removal keep it so.
\<close>

definition wf_db :: "tinydb \<Rightarrow> bool" where
  "wf_db d = (case next_id d of None \<Rightarrow> True | Some n \<Rightarrow> list_all (\<lambda>k. k < n) (doc_ids d))"

subsection \<open>Reviews\<close>

text \<open>
  \<^verbatim>\<open>user_has_reviewed\<close> scans the card's reviews for the user id. The reviews of a
  stored card are the records that \<^verbatim>\<open>add_review\<close> wrote, so the scan itself cannot
  raise and the function's \<^verbatim>\<open>except\<close> branch (which answers False) is not reached.
\<close>

definition user_has_reviewed :: "int \<Rightarrow> int \<Rightarrow> tinydb \<Rightarrow> bool" where
  "user_has_reviewed card_id u d =
     (case db_get d card_id of
        None \<Rightarrow> False
      | Some c \<Rightarrow> list_ex (\<lambda>r. user_id r = u) (reviews c))"

text \<open>The inner \<^verbatim>\<open>_add\<close> of \<^verbatim>\<open>add_review\<close>; \<open>now\<close> is \<^verbatim>\<open>time.time()\<close>.\<close>

definition review_add :: "real \<Rightarrow> int \<Rightarrow> int \<Rightarrow> int \<Rightarrow> string \<Rightarrow> tinydb \<Rightarrow> (py_exn + unit) \<times> tinydb" where
  "review_add now card_id u r c d =
     (case db_get d card_id of
        None \<Rightarrow> (Inr (), d)
      | Some doc \<Rightarrow>
          db_update
            (\<lambda>k. k\<lparr>reviews := reviews doc @ [\<lparr>user_id = u, rating = r, comment = c, timestamp = now\<rparr>]\<rparr>)
            card_id d)"

definition add_review :: "real \<Rightarrow> int \<Rightarrow> int \<Rightarrow> int \<Rightarrow> string \<Rightarrow> tinydb \<Rightarrow> (py_exn + unit) \<times> tinydb" where
  "add_review now card_id u r c d =
     (if user_has_reviewed card_id u d then (Inl DuplicateReview, d)
      else review_add now card_id u r (sanitize_text c (Some 200) False) d)"

definition reviews_of :: "tinydb \<Rightarrow> int \<Rightarrow> review list" where
  "reviews_of d i = (case db_get d i of None \<Rightarrow> [] | Some c \<Rightarrow> reviews c)"

subsection \<open>Backups\<close>

definition MAX_BACKUPS_KEPT :: nat where
  "MAX_BACKUPS_KEPT = 5"

text \<open>
  What a run of \<^verbatim>\<open>backup_database\<close> gets from outside: the UTC time stamp
  \<^verbatim>\<open>strftime("%Y%m%d_%H%M%S")\<close>, how \<^verbatim>\<open>shutil.copy2\<close> ends, and for each file
  whether \<^verbatim>\<open>unlink\<close> succeeds. \<^verbatim>\<open>copy2\<close> either completes, or raises before the
  destination file exists (no source file, no permission), or raises after it has
  created the destination (disk full, failure while copying the metadata). The backup
  directory is its listing, a list of file names; creating the directory is taken to
  succeed.
\<close>

datatype copy_outcome = Copied | NotCreated | CreatedThenFailed

record backup_env =
  stamp :: string
  copy_result :: copy_outcome
  unlink_ok :: "string \<Rightarrow> bool"

definition py_startswith :: "string \<Rightarrow> string \<Rightarrow> bool" where
  "py_startswith p s = (take (length p) s = p)"

text \<open>\<^verbatim>\<open>Path.suffix\<close>: from the last dot of the name, unless that dot is first or last.\<close>

definition path_suffix :: "string \<Rightarrow> string" where
  "path_suffix name =
     (let r = takeWhile (\<lambda>c. c \<noteq> CHR ''.'') (rev name)
      in if length r = length name \<or> r = [] \<or> Suc (length r) = length name then []
         else CHR ''.'' # rev r)"

definition is_backup_name :: "string \<Rightarrow> bool" where
  "is_backup_name f = (py_startswith ''cards_backup_'' f \<and> path_suffix f = ''.yaml'')"

definition backup_file_name :: "string \<Rightarrow> string" where
  "backup_file_name ts = ''cards_backup_'' @ ts @ ''.yaml''"

definition sorted_backups :: "string list \<Rightarrow> string list" where
  "sorted_backups dir = rev (sort (filter is_backup_name dir))"

text \<open>
  The copy and the pruning are in one \<^verbatim>\<open>try\<close>: when the copy raises, nothing is
  pruned, whether or not the destination file was created.
\<close>

definition backup_database :: "backup_env \<Rightarrow> string list \<Rightarrow> string list" where
  "backup_database env dir =
     (let backup_file = backup_file_name (stamp env);
          dir1 = (if backup_file \<in> set dir then dir else dir @ [backup_file])
      in case copy_result env of
           NotCreated \<Rightarrow> dir
         | CreatedThenFailed \<Rightarrow> dir1
         | Copied \<Rightarrow>
             let old = drop MAX_BACKUPS_KEPT (sorted_backups dir1)
             in filter (\<lambda>f. \<not> (f \<in> set old \<and> unlink_ok env f)) dir1)"

subsection \<open>Cards\<close>

record store =
  cards_db :: tinydb
  backup_dir :: "string list"

definition VALID_CATEGORIES :: "string list" where
  "VALID_CATEGORIES = [''yugioh'', ''pokemon'', ''magic'', ''altro'']"

definition validate_category :: "string \<Rightarrow> bool" where
  "validate_category c = (c \<in> set VALID_CATEGORIES)"

definition add_card :: "backup_env \<Rightarrow> string \<Rightarrow> string \<Rightarrow> string \<Rightarrow> string \<Rightarrow> store \<Rightarrow> (py_exn + int) \<times> store" where
  "add_card env cat ttl vid descr s =
     (let ttl1 = sanitize_text (py_title (py_strip ttl)) None False;
          descr1 = format_description descr;
          (res, d1) = db_insert \<lparr>category = cat, title = ttl1, video_id = vid,
                                  description = descr1, reviews = []\<rparr> (cards_db s)
      in case res of
           Inl e \<Rightarrow> (Inl e, s\<lparr>cards_db := d1\<rparr>)
         | Inr i \<Rightarrow> (Inr i, \<lparr>cards_db = d1, backup_dir = backup_database env (backup_dir s)\<rparr>))"

definition get_card :: "int \<Rightarrow> store \<Rightarrow> card option" where
  "get_card card_id s = db_get (cards_db s) card_id"

definition get_cards :: "string \<Rightarrow> store \<Rightarrow> (int \<times> string) list" where
  "get_cards cat s = map (\<lambda>(i, c). (i, title c)) (filter (\<lambda>(i, c). category c = cat) (docs (cards_db s)))"

text \<open>\<^verbatim>\<open>delete_card\<close> takes the backup first, then removes.\<close>

definition delete_card :: "backup_env \<Rightarrow> int \<Rightarrow> store \<Rightarrow> (py_exn + unit) \<times> store" where
  "delete_card env card_id s =
     (let dir1 = backup_database env (backup_dir s);
          (res, d1) = db_remove card_id (cards_db s)
      in (res, \<lparr>cards_db = d1, backup_dir = dir1\<rparr>))"

text \<open>The three updates write first and take the backup after a write that did not raise.\<close>

definition update_then_backup :: "backup_env \<Rightarrow> (card \<Rightarrow> card) \<Rightarrow> int \<Rightarrow> store \<Rightarrow> (py_exn + unit) \<times> store" where
  "update_then_backup env f card_id s =
     (let (res, d1) = db_update f card_id (cards_db s)
      in case res of
           Inl e \<Rightarrow> (Inl e, s\<lparr>cards_db := d1\<rparr>)
         | Inr u \<Rightarrow> (Inr (), \<lparr>cards_db = d1, backup_dir = backup_database env (backup_dir s)\<rparr>))"

definition update_card_video :: "backup_env \<Rightarrow> int \<Rightarrow> string \<Rightarrow> store \<Rightarrow> (py_exn + unit) \<times> store" where
  "update_card_video env card_id vid s = update_then_backup env (\<lambda>c. c\<lparr>video_id := vid\<rparr>) card_id s"

definition update_card_title :: "backup_env \<Rightarrow> int \<Rightarrow> string \<Rightarrow> store \<Rightarrow> (py_exn + unit) \<times> store" where
  "update_card_title env card_id new_title s =
     update_then_backup env
       (\<lambda>c. c\<lparr>title := sanitize_text (py_title (py_strip new_title)) None False\<rparr>) card_id s"

definition update_card_description :: "backup_env \<Rightarrow> int \<Rightarrow> string \<Rightarrow> store \<Rightarrow> (py_exn + unit) \<times> store" where
  "update_card_description env card_id new_description s =
     update_then_backup env (\<lambda>c. c\<lparr>description := format_description new_description\<rparr>) card_id s"

text \<open>\<^verbatim>\<open>add_review\<close> on the store: the table changes, the backup directory is not touched.\<close>

definition store_add_review :: "real \<Rightarrow> int \<Rightarrow> int \<Rightarrow> int \<Rightarrow> string \<Rightarrow> store \<Rightarrow> (py_exn + unit) \<times> store" where
  "store_add_review now card_id u r c s =
     (let (res, d1) = add_review now card_id u r c (cards_db s) in (res, s\<lparr>cards_db := d1\<rparr>))"

text \<open>A store mutation with what it reads from outside, and a sequence of them.\<close>

datatype mutation =
    AddCard backup_env string string string string
  | DeleteCard backup_env int
  | UpdateVideo backup_env int string
  | UpdateTitle backup_env int string
  | UpdateDescription backup_env int string
  | AddReview real int int int string

fun apply_mutation :: "mutation \<Rightarrow> store \<Rightarrow> store" where
  "apply_mutation (AddCard env cat ttl vid descr) s = snd (add_card env cat ttl vid descr s)"
| "apply_mutation (DeleteCard env i) s = snd (delete_card env i s)"
| "apply_mutation (UpdateVideo env i v) s = snd (update_card_video env i v s)"
| "apply_mutation (UpdateTitle env i t) s = snd (update_card_title env i t s)"
| "apply_mutation (UpdateDescription env i t) s = snd (update_card_description env i t s)"
| "apply_mutation (AddReview now i u r c) s = snd (store_add_review now i u r c s)"

fun mutation_env :: "mutation \<Rightarrow> backup_env option" where
  "mutation_env (AddCard env cat ttl vid descr) = Some env"
| "mutation_env (DeleteCard env i) = Some env"
| "mutation_env (UpdateVideo env i v) = Some env"
| "mutation_env (UpdateTitle env i t) = Some env"
| "mutation_env (UpdateDescription env i t) = Some env"
| "mutation_env (AddReview now i u r c) = None"

definition run_mutations :: "mutation list \<Rightarrow> store \<Rightarrow> store" where
  "run_mutations ms s = fold apply_mutation ms s"

definition snapshots :: "string list \<Rightarrow> string list" where
  "snapshots dir = filter is_backup_name dir"

subsection \<open>Average rating\<close>

text \<open>
  A value found under the key \<^verbatim>\<open>"rating"\<close>: an integer, a float, \<^verbatim>\<open>None\<close> or a
  string. An element of the list given to \<^verbatim>\<open>calculate_review_average\<close>: something
  that is not a dict, or a dict with the value under its key \<^verbatim>\<open>"rating"\<close> if it has
  that key.
\<close>

datatype pyval = PyInt int | PyFloat real | PyNone | PyStr string

datatype entry = NotADict | Dict "pyval option"

definition entry_of :: "review \<Rightarrow> entry" where
  "entry_of r = Dict (Some (PyInt (rating r)))"












section \<open>Rate limiters (handlers/helpers.py)\<close>

definition RATE_LIMIT_WINDOW :: real where
  "RATE_LIMIT_WINDOW = 5"

definition RATE_LIMIT_MAX_MESSAGES :: nat where
  "RATE_LIMIT_MAX_MESSAGES = 5"

definition REVIEW_RATE_LIMIT_MAX :: nat where
  "REVIEW_RATE_LIMIT_MAX = 3"

definition REVIEW_RATE_LIMIT_WINDOW :: real where
  "REVIEW_RATE_LIMIT_WINDOW = 3600"

text \<open>
  A registry is a \<^verbatim>\<open>defaultdict(list)\<close>: every user has a list of time stamps, empty
  until written. \<open>now\<close> is \<^verbatim>\<open>time.time()\<close>, a real number here.
\<close>

type_synonym registry = "int \<Rightarrow> real list"

definition check_rate_limit :: "real \<Rightarrow> int \<Rightarrow> registry \<Rightarrow> bool \<times> registry" where
  "check_rate_limit now u reg =
     (let timestamps = filter (\<lambda>t. now - t < RATE_LIMIT_WINDOW) (reg u)
      in if length timestamps \<ge> RATE_LIMIT_MAX_MESSAGES then (False, reg(u := timestamps))
         else (True, reg(u := timestamps @ [now])))"

text \<open>A user's calls of \<^verbatim>\<open>check_rate_limit\<close>, one per time given, and their results.\<close>

fun rate_limit_calls :: "real list \<Rightarrow> int \<Rightarrow> registry \<Rightarrow> bool list \<times> registry" where
  "rate_limit_calls [] u reg = ([], reg)"
| "rate_limit_calls (now # later) u reg =
     (let (ok, reg1) = check_rate_limit now u reg;
          (oks, reg2) = rate_limit_calls later u reg1
      in (ok # oks, reg2))"

text \<open>\<^verbatim>\<open>int(x)\<close> of a float rounds toward zero; \<^verbatim>\<open>min\<close> raises on an empty list.\<close>

definition py_int_of_float :: "real \<Rightarrow> int" where
  "py_int_of_float x = (if 0 \<le> x then \<lfloor>x\<rfloor> else \<lceil>x\<rceil>)"

definition py_min :: "real list \<Rightarrow> py_exn + real" where
  "py_min xs = (case xs of [] \<Rightarrow> Inl (ValueError ''min() arg is an empty sequence'')
                | y # ys \<Rightarrow> Inr (fold min ys y))"

definition check_review_rate_limit :: "real \<Rightarrow> int \<Rightarrow> registry \<Rightarrow> (py_exn + bool \<times> int) \<times> registry" where
  "check_review_rate_limit now u reg =
     (let timestamps = filter (\<lambda>t. now - t < REVIEW_RATE_LIMIT_WINDOW) (reg u)
      in if length timestamps \<ge> REVIEW_RATE_LIMIT_MAX
         then (case py_min timestamps of
                 Inl e \<Rightarrow> (Inl e, reg(u := timestamps))
               | Inr oldest \<Rightarrow>
                   (Inr (False, py_int_of_float (REVIEW_RATE_LIMIT_WINDOW - (now - oldest))),
                    reg(u := timestamps)))
         else (Inr (True, 0), reg(u := timestamps @ [now])))"

section \<open>Sessions and handlers\<close>

subsection \<open>Parsing callback data\<close>

text \<open>\<^verbatim>\<open>data.split("_")\<close>\<close>

fun py_split :: "char \<Rightarrow> string \<Rightarrow> string list" where
  "py_split sep [] = [[]]"
| "py_split sep (c # cs) =
     (if c = sep then [] # py_split sep cs
      else (case py_split sep cs of [] \<Rightarrow> [[c]] | x # xs \<Rightarrow> (c # x) # xs))"

text \<open>
  \<^verbatim>\<open>int(s)\<close> for a string: surrounding whitespace, an optional sign, decimal digits;
  anything else raises ValueError. (The strings parsed here are pieces of a split at
  \<^verbatim>\<open>_\<close>, so digit-group underscores do not occur.)
\<close>

definition is_digit :: "char \<Rightarrow> bool" where
  "is_digit c = (let n = (of_char c :: nat) in 48 \<le> n \<and> n \<le> 57)"

definition digits_value :: "string \<Rightarrow> int" where
  "digits_value ds = fold (\<lambda>c acc. acc * 10 + (int (of_char c) - 48)) ds 0"

definition py_int :: "string \<Rightarrow> py_exn + int" where
  "py_int s =
     (let t = py_strip s;
          (neg, ds) = (case t of
                         c # cs \<Rightarrow> if c = CHR ''-'' then (True, cs)
                                   else if c = CHR ''+'' then (False, cs) else (False, t)
                       | [] \<Rightarrow> (False, t))
      in if ds \<noteq> [] \<and> list_all is_digit ds
         then Inr (if neg then - digits_value ds else digits_value ds)
         else Inl (ValueError ''invalid literal for int()''))"

subsection \<open>State\<close>

datatype fsm_state =
    UploadCard_write_title
  | UploadCard_send_video
  | UploadCard_write_description
  | LeaveReview_choose_rating
  | LeaveReview_write_comment
  | UpdateCardVideo_send_video
  | UpdateCardTitle_write_title
  | UpdateCardDescription_write_description

text \<open>The keys that the handlers put into a session's data with \<^verbatim>\<open>state.update_data\<close>.\<close>

record fsm_data =
  d_category :: "string option"
  d_title :: "string option"
  d_video_id :: "string option"
  d_card_id :: "string option"
  d_card_title :: "string option"
  d_rating :: "int option"

definition empty_data :: fsm_data where
  "empty_data = \<lparr>d_category = None, d_title = None, d_video_id = None, d_card_id = None,
                  d_card_title = None, d_rating = None\<rparr>"

record fsm_context =
  cur_state :: "fsm_state option"
  cur_data :: fsm_data

text \<open>\<^verbatim>\<open>state.clear()\<close>: no state, no data.\<close>

definition cleared :: fsm_context where
  "cleared = \<lparr>cur_state = None, cur_data = empty_data\<rparr>"

record bot =
  the_store :: store
  fsm_timestamps :: "int \<rightharpoonup> real"
  fsm :: "int \<Rightarrow> fsm_context"
  rate_limit_registry :: registry
  review_rate_limit_registry :: registry

definition state_clear :: "int \<Rightarrow> bot \<Rightarrow> bot" where
  "state_clear u b = b\<lparr>fsm := (fsm b)(u := cleared)\<rparr>"

definition update_data :: "int \<Rightarrow> (fsm_data \<Rightarrow> fsm_data) \<Rightarrow> bot \<Rightarrow> bot" where
  "update_data u f b = b\<lparr>fsm := (fsm b)(u := (fsm b u)\<lparr>cur_data := f (cur_data (fsm b u))\<rparr>)\<rparr>"

definition set_state :: "int \<Rightarrow> fsm_state \<Rightarrow> bot \<Rightarrow> bot" where
  "set_state u st b = b\<lparr>fsm := (fsm b)(u := (fsm b u)\<lparr>cur_state := Some st\<rparr>)\<rparr>"

definition pop_timestamp :: "int \<Rightarrow> bot \<Rightarrow> bot" where
  "pop_timestamp u b = b\<lparr>fsm_timestamps := (fsm_timestamps b)(u := None)\<rparr>"

subsection \<open>Session timeout\<close>

definition FSM_TIMEOUT_SECONDS :: real where
  "FSM_TIMEOUT_SECONDS = 300"

definition check_fsm_timeout :: "real \<Rightarrow> int \<Rightarrow> bot \<Rightarrow> bool \<times> bot" where
  "check_fsm_timeout now u b =
     (let last_action = (case fsm_timestamps b u of None \<Rightarrow> 0 | Some t \<Rightarrow> t)
      in if last_action > 0 \<and> now - last_action > FSM_TIMEOUT_SECONDS
         then (False, pop_timestamp u (state_clear u b))
         else (True, b\<lparr>fsm_timestamps := (fsm_timestamps b)(u \<mapsto> now)\<rparr>))"

subsection \<open>What a handler answers\<close>

datatype reply =
    NoReply
  | WARN_SESSION_EXPIRED
  | WARN_TEXT_REQUIRED
  | WARN_TITLE_TOO_LONG
  | MSG_TITLE_OK
  | WARN_VIDEO_TOO_LARGE
  | WARN_INVALID_VIDEO_FORMAT
  | MSG_VIDEO_OK
  | WARN_DESCRIPTION_REQUIRED
  | WARN_DESCRIPTION_TOO_LONG
  | WARN_MISSING_DATA
  | WARN_INVALID_CATEGORY
  | MSG_CARD_PUBLISHED
  | WARN_SAVE_ERROR
  | WARN_ACCESS_DENIED
  | MSG_WRITE_TITLE
  | WARN_REVIEW_RATE_LIMIT int
  | WARN_CARD_NOT_FOUND
  | WARN_ALREADY_REVIEWED
  | MSG_START_REVIEW
  | MSG_WRITE_COMMENT
  | WARN_WRITE_COMMENT
  | WARN_COMMENT_TOO_LONG
  | CONFIRM_REVIEW
  | ERR_SAVE_REVIEW
  | MSG_REVIEW_SAVED
  | MSG_UPDATE_VIDEO
  | MSG_VIDEO_UPDATED
  | WARN_VIDEO_UPDATE_ERROR
  | MSG_UPDATE_TITLE
  | WARN_TITLE_UPDATE_TOO_LONG
  | WARN_TITLE_EMPTY
  | MSG_TITLE_UPDATED
  | WARN_TITLE_UPDATE_ERROR
  | MSG_UPDATE_DESCRIPTION
  | WARN_DESCRIPTION_UPDATE_TOO_LONG
  | WARN_DESCRIPTION_EMPTY
  | MSG_DESCRIPTION_UPDATED
  | WARN_DESCRIPTION_UPDATE_ERROR
  | WARN_VIDEO_REQUIRED

record video =
  file_id :: string
  file_size :: "nat option"
  file_name :: "string option"

subsection \<open>Upload workflow (handlers/cards.py)\<close>

definition MAX_TITLE_LENGTH :: nat where
  "MAX_TITLE_LENGTH = 100"

definition MAX_DESCRIPTION_LENGTH :: nat where
  "MAX_DESCRIPTION_LENGTH = 500"

definition MAX_VIDEO_SIZE_MB :: nat where
  "MAX_VIDEO_SIZE_MB = 50"

text \<open>The last component of a path, as \<^verbatim>\<open>Path(file_name).name\<close> gives it.\<close>

definition path_name :: "string \<Rightarrow> string" where
  "path_name p =
     (case filter (\<lambda>c. c \<noteq> [] \<and> c \<noteq> ''.'') (py_split CHR ''/'' p) of
        [] \<Rightarrow> []
      | c # cs \<Rightarrow> last (c # cs))"

definition valid_extensions :: "string list" where
  "valid_extensions = [''.mp4'', ''.mov'', ''.avi'', ''.mkv'', ''.webm'', ''.flv'', ''.mpeg'', ''.mpg'']"

definition validate_video_mimetype :: "string option \<Rightarrow> bool" where
  "validate_video_mimetype fname =
     (case fname of
        None \<Rightarrow> True
      | Some fn \<Rightarrow>
          if fn = [] then True
          else let file_ext = map py_lower (path_suffix (path_name fn))
               in file_ext \<in> set valid_extensions \<or> file_ext = [])"

text \<open>
  \<^verbatim>\<open>start_add_card\<close>, for callback data that starts with \<^verbatim>\<open>addnew_\<close>; \<open>admins\<close> is the
  configured \<^verbatim>\<open>ADMIN_IDS\<close>.
\<close>

definition start_add_card :: "int list \<Rightarrow> real \<Rightarrow> int \<Rightarrow> string \<Rightarrow> bot \<Rightarrow> reply \<times> bot" where
  "start_add_card admins now u callback_data b =
     (if u \<notin> set admins then (WARN_ACCESS_DENIED, b)
      else
        let parts = py_split CHR ''_'' callback_data
        in if length parts < 2 then (NoReply, b)
           else
             let cat = parts ! 1
             in if \<not> validate_category cat then (WARN_INVALID_CATEGORY, b)
                else
                  let b1 = update_data u (\<lambda>d. d\<lparr>d_category := Some cat\<rparr>) b;
                      b2 = b1\<lparr>fsm_timestamps := (fsm_timestamps b1)(u \<mapsto> now)\<rparr>
                  in (MSG_WRITE_TITLE, set_state u UploadCard_write_title b2))"

text \<open>\<^verbatim>\<open>admin_receive_title\<close>, for a message in state \<^verbatim>\<open>UploadCard.write_title\<close>.\<close>

definition admin_receive_title :: "real \<Rightarrow> int \<Rightarrow> string option \<Rightarrow> bot \<Rightarrow> reply \<times> bot" where
  "admin_receive_title now u text b =
     (let (ok, b1) = check_fsm_timeout now u b
      in if \<not> ok then (WARN_SESSION_EXPIRED, b1)
         else
           (case text of
              None \<Rightarrow> (WARN_TEXT_REQUIRED, b1)
            | Some t \<Rightarrow>
                if t = [] then (WARN_TEXT_REQUIRED, b1)
                else if length t > MAX_TITLE_LENGTH then (WARN_TITLE_TOO_LONG, b1)
                else (MSG_TITLE_OK,
                      set_state u UploadCard_send_video
                        (update_data u (\<lambda>d. d\<lparr>d_title := Some t\<rparr>) b1))))"

text \<open>\<^verbatim>\<open>admin_receive_video\<close>, for a message with a video in state \<^verbatim>\<open>UploadCard.send_video\<close>.\<close>

definition admin_receive_video :: "real \<Rightarrow> int \<Rightarrow> video \<Rightarrow> bot \<Rightarrow> reply \<times> bot" where
  "admin_receive_video now u v b =
     (let (ok, b1) = check_fsm_timeout now u b
      in if \<not> ok then (WARN_SESSION_EXPIRED, b1)
         else if (case file_size v of None \<Rightarrow> False
                  | Some n \<Rightarrow> n \<noteq> 0 \<and> n > MAX_VIDEO_SIZE_MB * 1024 * 1024)
         then (WARN_VIDEO_TOO_LARGE, b1)
         else if \<not> validate_video_mimetype (file_name v) then (WARN_INVALID_VIDEO_FORMAT, b1)
         else (MSG_VIDEO_OK,
               set_state u UploadCard_write_description
                 (update_data u (\<lambda>d. d\<lparr>d_video_id := Some (file_id v)\<rparr>) b1)))"

text \<open>\<^verbatim>\<open>admin_save_card\<close>, for a message in state \<^verbatim>\<open>UploadCard.write_description\<close>.\<close>

definition admin_save_card :: "backup_env \<Rightarrow> real \<Rightarrow> int \<Rightarrow> string option \<Rightarrow> bot \<Rightarrow> reply \<times> bot" where
  "admin_save_card env now u text b =
     (let (ok, b1) = check_fsm_timeout now u b
      in if \<not> ok then (WARN_SESSION_EXPIRED, b1)
         else
           (case text of
              None \<Rightarrow> (WARN_DESCRIPTION_REQUIRED, b1)
            | Some t \<Rightarrow>
                if t = [] then (WARN_DESCRIPTION_REQUIRED, b1)
                else if length t > MAX_DESCRIPTION_LENGTH then (WARN_DESCRIPTION_TOO_LONG, b1)
                else
                  let dat = cur_data (fsm b1 u)
                  in (case (d_category dat, d_title dat, d_video_id dat) of
                        (Some cat, Some ttl, Some vid) \<Rightarrow>
                          if \<not> validate_category cat
                          then (WARN_INVALID_CATEGORY, pop_timestamp u (state_clear u b1))
                          else
                            let (res, s1) = add_card env cat ttl vid t (the_store b1);
                                b2 = pop_timestamp u (state_clear u (b1\<lparr>the_store := s1\<rparr>))
                            in (case res of
                                  Inr i \<Rightarrow> (MSG_CARD_PUBLISHED, b2)
                                | Inl e \<Rightarrow> (WARN_SAVE_ERROR, b2))
                      | _ \<Rightarrow> (WARN_MISSING_DATA, pop_timestamp u (state_clear u b1)))))"

text \<open>
  \<^verbatim>\<open>admin_video_error\<close>, for a message without a video in state
  \<^verbatim>\<open>UploadCard.send_video\<close>: it answers and changes nothing.
\<close>

definition admin_video_error :: "int \<Rightarrow> bot \<Rightarrow> reply \<times> bot" where
  "admin_video_error u b = (WARN_VIDEO_REQUIRED, b)"

subsection \<open>Update workflows (handlers/cards.py)\<close>

text \<open>\<^verbatim>\<open>get_card\<close> given the id as text: a text that is no integer gives no card.\<close>

definition get_card_str :: "string \<Rightarrow> store \<Rightarrow> card option" where
  "get_card_str card_id s = (case py_int card_id of Inl e \<Rightarrow> None | Inr i \<Rightarrow> get_card i s)"

text \<open>
  The three start handlers, for callback data that starts with \<^verbatim>\<open>updatevideo_\<close>,
  \<^verbatim>\<open>updatetitle_\<close> and \<^verbatim>\<open>updatedesc_\<close>: they differ in the state they set and in
  what they answer.
\<close>

definition start_update :: "fsm_state \<Rightarrow> reply \<Rightarrow> int list \<Rightarrow> real \<Rightarrow> int \<Rightarrow> string \<Rightarrow> bot \<Rightarrow> reply \<times> bot" where
  "start_update st msg admins now u callback_data b =
     (if u \<notin> set admins then (WARN_ACCESS_DENIED, b)
      else
        let parts = py_split CHR ''_'' callback_data
        in if length parts < 2 then (NoReply, b)
           else
             let card_id = parts ! 1
             in (case get_card_str card_id (the_store b) of
                   None \<Rightarrow> (WARN_CARD_NOT_FOUND, b)
                 | Some c \<Rightarrow>
                     let b1 = update_data u
                                (\<lambda>d. d\<lparr>d_card_id := Some card_id, d_category := Some (category c)\<rparr>) b;
                         b2 = set_state u st b1
                     in (msg, b2\<lparr>fsm_timestamps := (fsm_timestamps b2)(u \<mapsto> now)\<rparr>)))"

definition start_update_video :: "int list \<Rightarrow> real \<Rightarrow> int \<Rightarrow> string \<Rightarrow> bot \<Rightarrow> reply \<times> bot" where
  "start_update_video = start_update UpdateCardVideo_send_video MSG_UPDATE_VIDEO"

definition start_update_title :: "int list \<Rightarrow> real \<Rightarrow> int \<Rightarrow> string \<Rightarrow> bot \<Rightarrow> reply \<times> bot" where
  "start_update_title = start_update UpdateCardTitle_write_title MSG_UPDATE_TITLE"

definition start_update_description :: "int list \<Rightarrow> real \<Rightarrow> int \<Rightarrow> string \<Rightarrow> bot \<Rightarrow> reply \<times> bot" where
  "start_update_description = start_update UpdateCardDescription_write_description MSG_UPDATE_DESCRIPTION"

text \<open>
  What the three receiving handlers do once the payload is valid: without a card id in
  the session they clear it; otherwise they call the update inside a \<^verbatim>\<open>try\<close>, clear
  the session after a call that returned, and only answer after one that raised
  (\<^verbatim>\<open>int(card_id)\<close> on a text that is no integer included).
\<close>

definition finish_update ::
  "(int \<Rightarrow> store \<Rightarrow> (py_exn + unit) \<times> store) \<Rightarrow> reply \<Rightarrow> reply \<Rightarrow> int \<Rightarrow> bot \<Rightarrow> reply \<times> bot" where
  "finish_update upd done failed u b =
     (case d_card_id (cur_data (fsm b u)) of
        None \<Rightarrow> (WARN_MISSING_DATA, pop_timestamp u (state_clear u b))
      | Some card_id \<Rightarrow>
          if card_id = [] then (WARN_MISSING_DATA, pop_timestamp u (state_clear u b))
          else
            (case py_int card_id of
               Inl e \<Rightarrow> (failed, b)
             | Inr i \<Rightarrow>
                 let (res, s1) = upd i (the_store b)
                 in (case res of
                       Inr x \<Rightarrow> (done, pop_timestamp u (state_clear u (b\<lparr>the_store := s1\<rparr>)))
                     | Inl e \<Rightarrow> (failed, b\<lparr>the_store := s1\<rparr>))))"

text \<open>\<^verbatim>\<open>receive_updated_video\<close>, for a message with a video in state \<^verbatim>\<open>UpdateCardVideo.send_video\<close>.\<close>

definition receive_updated_video :: "backup_env \<Rightarrow> real \<Rightarrow> int \<Rightarrow> video \<Rightarrow> bot \<Rightarrow> reply \<times> bot" where
  "receive_updated_video env now u v b =
     (let (ok, b1) = check_fsm_timeout now u b
      in if \<not> ok then (WARN_SESSION_EXPIRED, b1)
         else if (case file_size v of None \<Rightarrow> False
                  | Some n \<Rightarrow> n \<noteq> 0 \<and> n > MAX_VIDEO_SIZE_MB * 1024 * 1024)
         then (WARN_VIDEO_TOO_LARGE, b1)
         else if \<not> validate_video_mimetype (file_name v) then (WARN_INVALID_VIDEO_FORMAT, b1)
         else finish_update (\<lambda>i. update_card_video env i (file_id v))
                MSG_VIDEO_UPDATED WARN_VIDEO_UPDATE_ERROR u b1)"

text \<open>\<^verbatim>\<open>receive_updated_title\<close>, for a message with text in state \<^verbatim>\<open>UpdateCardTitle.write_title\<close>.\<close>

definition receive_updated_title :: "backup_env \<Rightarrow> real \<Rightarrow> int \<Rightarrow> string \<Rightarrow> bot \<Rightarrow> reply \<times> bot" where
  "receive_updated_title env now u text b =
     (let (ok, b1) = check_fsm_timeout now u b
      in if \<not> ok then (WARN_SESSION_EXPIRED, b1)
         else
           let new_title = py_strip text
           in if length new_title > MAX_TITLE_LENGTH then (WARN_TITLE_UPDATE_TOO_LONG, b1)
              else if length new_title = 0 then (WARN_TITLE_EMPTY, b1)
              else finish_update (\<lambda>i. update_card_title env i new_title)
                     MSG_TITLE_UPDATED WARN_TITLE_UPDATE_ERROR u b1)"

text \<open>
  \<^verbatim>\<open>receive_updated_description\<close>, for a message with text in state
  \<^verbatim>\<open>UpdateCardDescription.write_description\<close>.
\<close>

definition receive_updated_description :: "backup_env \<Rightarrow> real \<Rightarrow> int \<Rightarrow> string \<Rightarrow> bot \<Rightarrow> reply \<times> bot" where
  "receive_updated_description env now u text b =
     (let (ok, b1) = check_fsm_timeout now u b
      in if \<not> ok then (WARN_SESSION_EXPIRED, b1)
         else
           let new_description = py_strip text
           in if length new_description > MAX_DESCRIPTION_LENGTH
              then (WARN_DESCRIPTION_UPDATE_TOO_LONG, b1)
              else if length new_description = 0 then (WARN_DESCRIPTION_EMPTY, b1)
              else finish_update (\<lambda>i. update_card_description env i new_description)
                     MSG_DESCRIPTION_UPDATED WARN_DESCRIPTION_UPDATE_ERROR u b1)"

subsection \<open>Review workflow (handlers/reviews.py)\<close>

text \<open>\<^verbatim>\<open>start_review\<close>, for callback data that starts with \<^verbatim>\<open>review_\<close>.\<close>

definition start_review :: "real \<Rightarrow> int \<Rightarrow> string \<Rightarrow> bot \<Rightarrow> (py_exn + reply) \<times> bot" where
  "start_review now u callback_data b =
     (let parts = py_split CHR ''_'' callback_data
      in if length parts < 2 then (Inr NoReply, b)
         else
           let card_id = parts ! 1;
               (lim, reg1) = check_review_rate_limit now u (review_rate_limit_registry b);
               b1 = b\<lparr>review_rate_limit_registry := reg1\<rparr>
           in (case lim of
                 Inl e \<Rightarrow> (Inl e, b1)
               | Inr (can_review, remaining_seconds) \<Rightarrow>
                   if \<not> can_review then (Inr (WARN_REVIEW_RATE_LIMIT (remaining_seconds div 60 + 1)), b1)
                   else
                     (case get_card_str card_id (the_store b1) of
                        None \<Rightarrow> (Inr WARN_CARD_NOT_FOUND, b1)
                      | Some c \<Rightarrow>
                          (case py_int card_id of
                             Inl e \<Rightarrow> (Inl e, b1)
                           | Inr i \<Rightarrow>
                               if user_has_reviewed i u (cards_db (the_store b1))
                               then (Inr WARN_ALREADY_REVIEWED, b1)
                               else
                                 (Inr MSG_START_REVIEW,
                                  set_state u LeaveReview_choose_rating
                                    (update_data u
                                       (\<lambda>d. d\<lparr>d_card_id := Some card_id, d_card_title := Some (title c)\<rparr>)
                                       b1))))))"

text \<open>
  \<^verbatim>\<open>select_rating\<close>, for callback data that starts with \<^verbatim>\<open>rate_\<close>, in any state.
  \<^verbatim>\<open>data['card_id']\<close> raises KeyError when the session has no card id.
\<close>

definition select_rating :: "int \<Rightarrow> string \<Rightarrow> bot \<Rightarrow> (py_exn + reply) \<times> bot" where
  "select_rating u callback_data b =
     (let parts = py_split CHR ''_'' callback_data
      in if length parts < 2 then (Inr NoReply, b)
         else
           (case py_int (parts ! 1) of
              Inl e \<Rightarrow> (Inl e, b)
            | Inr r \<Rightarrow>
                let b1 = update_data u (\<lambda>d. d\<lparr>d_rating := Some r\<rparr>) b
                in (case d_card_id (cur_data (fsm b1 u)) of
                      None \<Rightarrow> (Inl (KeyError ''card_id''), b1)
                    | Some cid \<Rightarrow> (Inr MSG_WRITE_COMMENT, set_state u LeaveReview_write_comment b1))))"

text \<open>
  The call of \<^verbatim>\<open>add_review\<close> that both saving handlers make inside their \<^verbatim>\<open>try\<close>,
  with the session's card id and rating.
\<close>

definition add_review_from_session :: "real \<Rightarrow> int \<Rightarrow> string \<Rightarrow> bot \<Rightarrow> (py_exn + unit) \<times> bot" where
  "add_review_from_session now u cm b =
     (let dat = cur_data (fsm b u)
      in case d_card_id dat of
           None \<Rightarrow> (Inl (KeyError ''card_id''), b)
         | Some cid \<Rightarrow>
             (case py_int cid of
                Inl e \<Rightarrow> (Inl e, b)
              | Inr i \<Rightarrow>
                  (case d_rating dat of
                     None \<Rightarrow> (Inl (KeyError ''rating''), b)
                   | Some r \<Rightarrow>
                       let (res, s1) = store_add_review now i u r cm (the_store b)
                       in (res, b\<lparr>the_store := s1\<rparr>))))"

fun is_ValueError :: "py_exn \<Rightarrow> bool" where
  "is_ValueError (ValueError m) = True"
| "is_ValueError e = False"

text \<open>\<^verbatim>\<open>save_review_with_comment\<close>, for a message in state \<^verbatim>\<open>LeaveReview.write_comment\<close>.\<close>

definition save_review_with_comment :: "real \<Rightarrow> int \<Rightarrow> string option \<Rightarrow> bot \<Rightarrow> reply \<times> bot" where
  "save_review_with_comment now u text b =
     (case text of
        None \<Rightarrow> (WARN_WRITE_COMMENT, b)
      | Some t \<Rightarrow>
          if t = [] then (WARN_WRITE_COMMENT, b)
          else if length t > 200 then (WARN_COMMENT_TOO_LONG, b)
          else
            let (res, b1) = add_review_from_session now u t b
            in ((case res of
                   Inr x \<Rightarrow> CONFIRM_REVIEW
                 | Inl e \<Rightarrow> if is_ValueError e then WARN_ALREADY_REVIEWED else ERR_SAVE_REVIEW),
                state_clear u b1))"

text \<open>
  \<^verbatim>\<open>skip_comment\<close>, for the callback data \<^verbatim>\<open>comment_skip\<close>; after it the handler shows
  the card again (\<^verbatim>\<open>view_card\<close>, which only reads), for which it needs the card id.
\<close>

definition skip_comment :: "real \<Rightarrow> int \<Rightarrow> bot \<Rightarrow> (py_exn + reply) \<times> bot" where
  "skip_comment now u b =
     (let (res, b1) = add_review_from_session now u [] b;
          answer = (case res of
                      Inr x \<Rightarrow> MSG_REVIEW_SAVED
                    | Inl e \<Rightarrow> if is_ValueError e then WARN_ALREADY_REVIEWED else ERR_SAVE_REVIEW);
          b2 = state_clear u b1
      in case d_card_id (cur_data (fsm b u)) of
           None \<Rightarrow> (Inl (KeyError ''card_id''), b2)
         | Some cid \<Rightarrow> (Inr answer, b2))"

section \<open>Concurrent calls of add\_review\<close>

text \<open>
  \<^verbatim>\<open>add_review\<close> is a coroutine; the event loop can switch to another one at each
  \<^verbatim>\<open>await\<close>. Its steps, in the order of the source: the duplicate check
  (\<^verbatim>\<open>await user_has_reviewed\<close>, before the lock is requested), entering
  \<^verbatim>\<open>async with _db_lock\<close>, the write (\<^verbatim>\<open>await asyncio.to_thread(_add)\<close>), and leaving
  the lock.
\<close>

datatype pc = AtCheck | AtAcquire | AtAdd | AtRelease | Returned | Raised py_exn

record task =
  t_card_id :: int
  t_user_id :: int
  t_rating :: int
  t_comment :: string
  t_pc :: pc

record system =
  sys_db :: tinydb
  db_lock :: "nat option"
  tasks :: "task list"

definition set_pc :: "nat \<Rightarrow> pc \<Rightarrow> system \<Rightarrow> system" where
  "set_pc k p s = s\<lparr>tasks := (tasks s)[k := (tasks s ! k)\<lparr>t_pc := p\<rparr>]\<rparr>"

text \<open>One step of task \<open>k\<close> at time \<open>now\<close>; a task that waits for the lock does not move.\<close>

definition task_step :: "real \<Rightarrow> nat \<Rightarrow> system \<Rightarrow> system" where
  "task_step now k s =
     (if k \<ge> length (tasks s) then s
      else
        let t = tasks s ! k
        in (case t_pc t of
              AtCheck \<Rightarrow>
                if user_has_reviewed (t_card_id t) (t_user_id t) (sys_db s)
                then set_pc k (Raised DuplicateReview) s
                else set_pc k AtAcquire s
            | AtAcquire \<Rightarrow>
                if db_lock s = None then set_pc k AtAdd (s\<lparr>db_lock := Some k\<rparr>) else s
            | AtAdd \<Rightarrow>
                let (res, d1) = review_add now (t_card_id t) (t_user_id t) (t_rating t)
                                  (sanitize_text (t_comment t) (Some 200) False) (sys_db s)
                in (case res of
                      Inr x \<Rightarrow> set_pc k AtRelease (s\<lparr>sys_db := d1\<rparr>)
                    | Inl e \<Rightarrow> set_pc k (Raised e) (s\<lparr>sys_db := d1, db_lock := None\<rparr>))
            | AtRelease \<Rightarrow> set_pc k Returned (s\<lparr>db_lock := None\<rparr>)
            | Returned \<Rightarrow> s
            | Raised e \<Rightarrow> s))"

text \<open>A schedule says which task moves next, and when.\<close>

fun run_schedule :: "(nat \<times> real) list \<Rightarrow> system \<Rightarrow> system" where
  "run_schedule [] s = s"
| "run_schedule ((k, now) # rest) s = run_schedule rest (task_step now k s)"

section \<open>Example data\<close>

definition demo_card :: card where
  "demo_card = \<lparr>category = ''pokemon'', title = ''Pikachu'', video_id = ''vid1'',
                 description = ''Electric mouse'', reviews = []\<rparr>"

definition demo_db :: tinydb where
  "demo_db = \<lparr>docs = [(1, demo_card)], next_id = Some 2\<rparr>"

definition demo_store :: store where
  "demo_store = \<lparr>cards_db = demo_db, backup_dir = []\<rparr>"

definition demo_bot :: bot where
  "demo_bot = \<lparr>the_store = demo_store, fsm_timestamps = Map.empty, fsm = (\<lambda>u. cleared),
                rate_limit_registry = (\<lambda>u. []), review_rate_limit_registry = (\<lambda>u. [])\<rparr>"

text \<open>A run of the backup in which everything succeeds, and one in which no file can be deleted.\<close>

definition demo_env :: backup_env where
  "demo_env = \<lparr>stamp = ''20240106_120000'', copy_result = Copied, unlink_ok = (\<lambda>f. True)\<rparr>"

definition locked_env :: backup_env where
  "locked_env = \<lparr>stamp = ''20240106_120000'', copy_result = Copied, unlink_ok = (\<lambda>f. False)\<rparr>"

text \<open>A run of the backup whose copy raises after it has created the file.\<close>

definition partial_copy_env :: backup_env where
  "partial_copy_env =
     \<lparr>stamp = ''20240106_120000'', copy_result = CreatedThenFailed, unlink_ok = (\<lambda>f. True)\<rparr>"

definition five_backups :: "string list" where
  "five_backups = map backup_file_name
     [''20240101_120000'', ''20240102_120000'', ''20240103_120000'', ''20240104_120000'',
      ''20240105_120000'']"

definition full_store :: store where
  "full_store = \<lparr>cards_db = demo_db, backup_dir = five_backups\<rparr>"

definition demo_mutations :: "mutation list" where
  "demo_mutations =
     [AddCard demo_env ''magic'' ''black lotus'' ''vid2'' ''a flower'',
      AddReview 50 1 7 5 ''nice'',
      DeleteCard demo_env 1]"

text \<open>Time stamps of one user in the two registries.\<close>

definition message_registry :: registry where
  "message_registry = (\<lambda>u. [1, 97, 98, 99, 100, 101])"

definition review_registry :: registry where
  "review_registry = (\<lambda>u. [10, 20, 30])"

text \<open>Two calls \<^verbatim>\<open>add_review(1, 7, ...)\<close> in flight at once, and a schedule of their steps.\<close>

definition race_system :: system where
  "race_system =
     \<lparr>sys_db = demo_db, db_lock = None,
      tasks = [\<lparr>t_card_id = 1, t_user_id = 7, t_rating = 5, t_comment = ''great'', t_pc = AtCheck\<rparr>,
               \<lparr>t_card_id = 1, t_user_id = 7, t_rating = 4, t_comment = ''good'', t_pc = AtCheck\<rparr>]\<rparr>"

definition race_schedule :: "(nat \<times> real) list" where
  "race_schedule = [(0, 10), (1, 11), (0, 12), (0, 13), (0, 14), (1, 15), (1, 16), (1, 17)]"

text \<open>
  User 7, an admin, starts an upload at time 100 and then a review of card 1 at time
  150, and chooses five stars.
\<close>

definition stale_session_bot :: bot where
  "stale_session_bot =
     snd (select_rating 7 ''rate_5''
       (snd (start_review 150 7 ''review_1''
         (snd (start_add_card [7] 100 7 ''addnew_pokemon'' demo_bot)))))"

text \<open>User 7 starts a review of card 1 and sends the callback data \<^verbatim>\<open>rate_9\<close>.\<close>

definition forged_rating_bot :: bot where
  "forged_rating_bot =
     snd (select_rating 7 ''rate_9'' (snd (start_review 100 7 ''review_1'' demo_bot)))"

text \<open>
  Admin 42 starts an upload in category pokemon at time 1000 and sends the title at time
  1010; the video that follows.
\<close>

definition titled_bot :: bot where
  "titled_bot =
     snd (admin_receive_title 1010 42 (Some ''charizard'')
       (snd (start_add_card [42] 1000 42 ''addnew_pokemon'' demo_bot)))"

definition demo_video :: video where
  "demo_video = \<lparr>file_id = ''file42'', file_size = Some 1000, file_name = Some ''clip.mp4''\<rparr>"

definition videoed_bot :: bot where
  "videoed_bot = snd (admin_receive_video 1020 42 demo_video titled_bot)"

text \<open>Admin 42 starts a title update of card 1 at time 2000.\<close>

definition retitling_bot :: bot where
  "retitling_bot = snd (start_update_title [42] 2000 42 ''updatetitle_1'' demo_bot)"

text \<open>A session whose data names a category outside the whitelist.\<close>

definition unlisted_category_bot :: bot where
  "unlisted_category_bot =
     demo_bot\<lparr>fsm := (fsm demo_bot)(42 :=
        \<lparr>cur_state = Some UploadCard_write_description,
         cur_data = empty_data\<lparr>d_category := Some ''digimon'', d_title := Some ''agumon'',
                                 d_video_id := Some ''file42''\<rparr>\<rparr>)\<rparr>"

section \<open>Evaluation rules\<close>

lemmas text_defs =
  sanitize_text_def format_description_def py_strip_def py_isspace_def py_isprintable_def
  yaml_special_start_def py_title_def py_iscased_def py_upper_def py_lower_def
  ascii_lowercase_def ascii_uppercase_def py_slice_to_def

lemmas db_defs =
  db_get_def doc_ids_def db_update_def db_insert_def db_remove_def get_next_id_def
  user_has_reviewed_def review_add_def add_review_def reviews_of_def

lemmas parse_defs = py_int_def is_digit_def digits_value_def

lemmas session_defs =
  update_data_def set_state_def state_clear_def pop_timestamp_def cleared_def empty_data_def
  check_fsm_timeout_def FSM_TIMEOUT_SECONDS_def

lemmas demo_defs = demo_card_def demo_db_def demo_store_def demo_bot_def

section \<open>The table\<close>

lemma map_of_map_upd:
  "map_of (map (\<lambda>(k, c). if k = i then (k, f c) else (k, c)) xs) j =
     (if j = i then map_option f (map_of xs i) else map_of xs j)"
  by (induction xs) auto

lemma db_get_update:
  "i \<in> set (doc_ids d) \<Longrightarrow>
   db_get (snd (db_update f i d)) j = (if j = i then map_option f (db_get d i) else db_get d j)"
  by (simp add: db_update_def db_get_def map_of_map_upd)

lemma db_get_Some_ids: "db_get d i = Some c \<Longrightarrow> i \<in> set (doc_ids d)"
  by (auto simp: db_get_def doc_ids_def dest: map_of_SomeD intro: rev_image_eqI)

lemma review_add_present:
  assumes "db_get d i = Some c"
  shows "fst (review_add now i u r cm d) = Inr ()"
    and "db_get (snd (review_add now i u r cm d)) j =
          (if j = i
           then Some (c\<lparr>reviews := reviews c @ [\<lparr>user_id = u, rating = r, comment = cm, timestamp = now\<rparr>]\<rparr>)
           else db_get d j)"
proof -
  from assms have ids: "i \<in> set (doc_ids d)" by (rule db_get_Some_ids)
  show "fst (review_add now i u r cm d) = Inr ()"
    using assms ids by (simp add: review_add_def db_update_def)
  show "db_get (snd (review_add now i u r cm d)) j =
          (if j = i
           then Some (c\<lparr>reviews := reviews c @ [\<lparr>user_id = u, rating = r, comment = cm, timestamp = now\<rparr>]\<rparr>)
           else db_get d j)"
    using assms ids by (simp add: review_add_def db_get_update)
qed

section \<open>Reviews\<close>

text \<open>
  C1. For a card that is in the store and a user who has not reviewed it yet, two calls
  of \<^verbatim>\<open>add_review\<close> for that card and user, one after the other: the first returns and
  appends exactly one review (the sanitized comment, the given rating), every other card
  stays as it was; the second raises the duplicate-review error and leaves the store
  exactly as the first call left it; afterwards the card has exactly one review by the
  user, and one review more than before (so one, not two, on a card that had none).
\<close>

theorem add_review_twice:
  assumes present: "db_get d i = Some c"
    and fresh: "\<not> user_has_reviewed i u d"
  shows "fst (add_review t1 i u r1 c1 d) = Inr ()
       \<and> reviews_of (snd (add_review t1 i u r1 c1 d)) i =
           reviews c @ [\<lparr>user_id = u, rating = r1, comment = sanitize_text c1 (Some 200) False, timestamp = t1\<rparr>]
       \<and> (\<forall>j. j \<noteq> i \<longrightarrow> db_get (snd (add_review t1 i u r1 c1 d)) j = db_get d j)
       \<and> add_review t2 i u r2 c2 (snd (add_review t1 i u r1 c1 d)) =
           (Inl DuplicateReview, snd (add_review t1 i u r1 c1 d))
       \<and> length (filter (\<lambda>r. user_id r = u) (reviews_of (snd (add_review t1 i u r1 c1 d)) i)) = 1
       \<and> length (reviews_of (snd (add_review t1 i u r1 c1 d)) i) = length (reviews c) + 1"
proof -
  let ?cm = "sanitize_text c1 (Some 200) False"
  let ?d1 = "snd (add_review t1 i u r1 c1 d)"
  have eq: "add_review t1 i u r1 c1 d = review_add t1 i u r1 ?cm d"
    using fresh by (simp add: add_review_def)
  have none: "filter (\<lambda>r. user_id r = u) (reviews c) = []"
    using present fresh by (auto simp: user_has_reviewed_def list_ex_iff filter_empty_conv)
  have res: "fst (add_review t1 i u r1 c1 d) = Inr ()"
    using review_add_present(1)[OF present] eq by simp
  have get1: "db_get ?d1 j =
      (if j = i
       then Some (c\<lparr>reviews := reviews c @ [\<lparr>user_id = u, rating = r1, comment = ?cm, timestamp = t1\<rparr>]\<rparr>)
       else db_get d j)" for j
    using review_add_present(2)[OF present, of t1 u r1 ?cm j] eq by simp
  then have revs: "reviews_of ?d1 i =
      reviews c @ [\<lparr>user_id = u, rating = r1, comment = ?cm, timestamp = t1\<rparr>]"
    by (simp add: reviews_of_def)
  have dup: "user_has_reviewed i u ?d1"
    using get1[of i] by (simp add: user_has_reviewed_def)
  then have second: "add_review t2 i u r2 c2 ?d1 = (Inl DuplicateReview, ?d1)"
    by (simp add: add_review_def)
  show ?thesis
    using res revs second none get1 by simp
qed

theorem add_review_twice_witness:
  "db_get demo_db 1 = Some demo_card \<and> \<not> user_has_reviewed 1 7 demo_db
   \<and> fst (add_review 10 1 7 5 ''nice'' demo_db) = Inr ()
   \<and> add_review 20 1 7 4 ''again'' (snd (add_review 10 1 7 5 ''nice'' demo_db)) =
        (Inl DuplicateReview, snd (add_review 10 1 7 5 ''nice'' demo_db))
   \<and> length (reviews_of (snd (add_review 10 1 7 5 ''nice'' demo_db)) 1) = 1"
proof -
  have p: "db_get demo_db 1 = Some demo_card"
    by (simp add: db_get_def demo_db_def)
  have f: "\<not> user_has_reviewed 1 7 demo_db"
    by (simp add: user_has_reviewed_def db_get_def demo_db_def demo_card_def)
  have "reviews demo_card = []"
    by (simp add: demo_card_def)
  with add_review_twice [OF p f, of 10 5 "''nice''" 20 4 "''again''"] p f
  show ?thesis by simp
qed

text \<open>
  C10. \<^verbatim>\<open>add_review\<close> for a card id that is not in the store returns normally, raises
  nothing, and leaves the store as it was.
\<close>

theorem add_review_absent_card:
  "db_get d i = None \<Longrightarrow> add_review now i u r c d = (Inr (), d)"
  by (simp add: add_review_def user_has_reviewed_def review_add_def)

theorem add_review_absent_card_witness:
  "db_get demo_db 99 = None \<and> add_review 10 99 7 5 ''nice'' demo_db = (Inr (), demo_db)"
proof -
  have a: "db_get demo_db 99 = None"
    by (simp add: db_get_def demo_db_def)
  from add_review_absent_card [OF a] a show ?thesis by simp
qed

section \<open>Concurrent reviews\<close>

text \<open>
  C2 (the code at the failing schedule). Two calls \<^verbatim>\<open>add_review(1, 7, ...)\<close> run
  together; both make the duplicate check, with the lock free, before either one writes.
  Both return normally and card 1 ends with two reviews by user 7.
\<close>

theorem add_review_race:
  "map t_pc (tasks (run_schedule race_schedule race_system)) = [Returned, Returned]
   \<and> map user_id (reviews_of (sys_db (run_schedule race_schedule race_system)) 1) = [7, 7]
   \<and> db_lock (run_schedule (take 2 race_schedule) race_system) = None"
  by (simp add: race_schedule_def race_system_def task_step_def set_pc_def db_defs demo_defs)

lemma fold_max_ge_init: "(a::int) \<le> fold max xs a"
  by (induction xs arbitrary: a) (auto intro: order_trans [OF max.cobounded2])

lemma fold_max_ge_elem: "k \<in> set xs \<Longrightarrow> (k::int) \<le> fold max xs a"
proof (induction xs arbitrary: a)
  case Nil
  then show ?case by simp
next
  case (Cons x xs)
  show ?case
  proof (cases "k = x")
    case True
    have "x \<le> max x a" by simp
    also have "\<dots> \<le> fold max xs (max x a)" by (rule fold_max_ge_init)
    finally show ?thesis using True by simp
  next
    case False
    with Cons show ?thesis by simp
  qed
qed

lemma get_next_id_fresh:
  assumes "wf_db d"
  shows "fst (get_next_id d) \<notin> set (doc_ids d)"
    and "docs (snd (get_next_id d)) = docs d"
    and "next_id (snd (get_next_id d)) = Some (fst (get_next_id d) + 1)"
proof -
  show "fst (get_next_id d) \<notin> set (doc_ids d)"
  proof (cases "next_id d")
    case (Some n)
    with assms show ?thesis
      by (auto simp: get_next_id_def wf_db_def list_all_iff)
  next
    case None
    show ?thesis
    proof (cases "docs d = []")
      case True
      with None show ?thesis by (simp add: get_next_id_def doc_ids_def)
    next
      case False
      have "fold max (doc_ids d) (hd (doc_ids d)) + 1 \<notin> set (doc_ids d)"
      proof
        assume "fold max (doc_ids d) (hd (doc_ids d)) + 1 \<in> set (doc_ids d)"
        then have "fold max (doc_ids d) (hd (doc_ids d)) + 1 \<le> fold max (doc_ids d) (hd (doc_ids d))"
          by (rule fold_max_ge_elem)
        then show False by simp
      qed
      with None False show ?thesis
        by (simp add: get_next_id_def Let_def)
    qed
  qed
  show "docs (snd (get_next_id d)) = docs d"
    by (simp add: get_next_id_def Let_def split: option.splits)
  show "next_id (snd (get_next_id d)) = Some (fst (get_next_id d) + 1)"
    by (simp add: get_next_id_def Let_def split: option.splits)
qed

lemma db_insert_fresh:
  assumes "wf_db d"
  shows "\<exists>i. fst (db_insert doc d) = Inr i \<and> i \<notin> set (doc_ids d)
           \<and> db_get (snd (db_insert doc d)) i = Some doc
           \<and> (\<forall>j. j \<noteq> i \<longrightarrow> db_get (snd (db_insert doc d)) j = db_get d j)"
proof -
  obtain i d1 where g: "get_next_id d = (i, d1)" by (cases "get_next_id d")
  from get_next_id_fresh [OF assms] g
  have fresh: "i \<notin> set (doc_ids d)" and same: "docs d1 = docs d" by simp_all
  then have fresh1: "i \<notin> set (doc_ids d1)" by (simp add: doc_ids_def)
  have ins: "db_insert doc d = (Inr i, d1\<lparr>docs := docs d1 @ [(i, doc)]\<rparr>)"
    using g fresh1 by (simp add: db_insert_def)
  have none: "map_of (docs d) i = None"
    using fresh by (simp add: doc_ids_def map_of_eq_None_iff)
  have "db_get (snd (db_insert doc d)) i = Some doc"
    using ins same none by (simp add: db_get_def map_add_def)
  moreover have "\<forall>j. j \<noteq> i \<longrightarrow> db_get (snd (db_insert doc d)) j = db_get d j"
    using ins same by (simp add: db_get_def map_add_def split: option.splits)
  ultimately show ?thesis using ins fresh by simp
qed

lemma add_card_inserts:
  assumes "wf_db (cards_db s)"
  shows "\<exists>i. fst (add_card env cat ttl vid descr s) = Inr i
           \<and> i \<notin> set (doc_ids (cards_db s))
           \<and> get_card i (snd (add_card env cat ttl vid descr s)) =
               Some \<lparr>category = cat, title = sanitize_text (py_title (py_strip ttl)) None False,
                     video_id = vid, description = format_description descr, reviews = []\<rparr>
           \<and> (\<forall>j. j \<noteq> i \<longrightarrow> get_card j (snd (add_card env cat ttl vid descr s)) = get_card j s)"
proof -
  let ?doc = "\<lparr>category = cat, title = sanitize_text (py_title (py_strip ttl)) None False,
               video_id = vid, description = format_description descr, reviews = []\<rparr>"
  from db_insert_fresh [OF assms, of ?doc]
  obtain i where i: "fst (db_insert ?doc (cards_db s)) = Inr i" "i \<notin> set (doc_ids (cards_db s))"
    "db_get (snd (db_insert ?doc (cards_db s))) i = Some ?doc"
    "\<forall>j. j \<noteq> i \<longrightarrow> db_get (snd (db_insert ?doc (cards_db s))) j = db_get (cards_db s) j"
    by blast
  obtain d1 where d1: "db_insert ?doc (cards_db s) = (Inr i, d1)"
    using i(1) by (cases "db_insert ?doc (cards_db s)") simp
  have "add_card env cat ttl vid descr s =
          (Inr i, \<lparr>cards_db = d1, backup_dir = backup_database env (backup_dir s)\<rparr>)"
    using d1 by (simp add: add_card_def)
  with i d1 show ?thesis by (simp add: get_card_def)
qed

section \<open>Adding cards\<close>

lemma wf_demo_db: "wf_db (cards_db demo_store)"
  by (simp add: wf_db_def demo_defs doc_ids_def)

text \<open>
  C3 (counterexample). \<^verbatim>\<open>add_card\<close> with the category \<^verbatim>\<open>foo\<close>, which is not in the
  whitelist, returns the new id 2 and the store then holds a card of that category.
\<close>

theorem add_card_unlisted_category_counterexample:
  "\<not> validate_category ''foo''
   \<and> fst (add_card demo_env ''foo'' ''t'' ''v'' ''d'' demo_store) = Inr 2
   \<and> map_option category (get_card 2 (snd (add_card demo_env ''foo'' ''t'' ''v'' ''d'' demo_store)))
       = Some ''foo''"
  by (simp add: validate_category_def VALID_CATEGORIES_def add_card_def get_card_def
      db_defs demo_defs)

text \<open>
  C3 (amended). \<^verbatim>\<open>add_card\<close> itself does not look at the category: on a well-formed
  table it returns a fresh id for every category string and stores the card under it.
  The whitelist is enforced by the last step of the upload workflow: when the session's
  category is not in the whitelist, \<^verbatim>\<open>admin_save_card\<close> leaves the store unchanged and
  does not publish; when it publishes, the session's category is in the whitelist.
\<close>

theorem category_whitelist_guard:
  "(wf_db (cards_db s) \<longrightarrow>
      (\<exists>i. fst (add_card env cat ttl vid descr s) = Inr i
          \<and> i \<notin> set (doc_ids (cards_db s))
          \<and> map_option category (get_card i (snd (add_card env cat ttl vid descr s))) = Some cat))
   \<and> (d_category (cur_data (fsm b u)) = Some cat \<and> \<not> validate_category cat \<longrightarrow>
        the_store (snd (admin_save_card env now u text b)) = the_store b
        \<and> fst (admin_save_card env now u text b) \<noteq> MSG_CARD_PUBLISHED)
   \<and> (fst (admin_save_card env now u text b) = MSG_CARD_PUBLISHED \<longrightarrow>
        (\<exists>c. d_category (cur_data (fsm b u)) = Some c \<and> validate_category c))"
proof (intro conjI impI)
  assume "wf_db (cards_db s)"
  from add_card_inserts [OF this, of env cat ttl vid descr]
  show "\<exists>i. fst (add_card env cat ttl vid descr s) = Inr i
          \<and> i \<notin> set (doc_ids (cards_db s))
          \<and> map_option category (get_card i (snd (add_card env cat ttl vid descr s))) = Some cat"
    by auto
next
  assume a: "d_category (cur_data (fsm b u)) = Some cat \<and> \<not> validate_category cat"
  then show "the_store (snd (admin_save_card env now u text b)) = the_store b"
    by (auto simp: admin_save_card_def session_defs Let_def split: option.splits prod.splits sum.splits)
  from a show "fst (admin_save_card env now u text b) \<noteq> MSG_CARD_PUBLISHED"
    by (auto simp: admin_save_card_def session_defs Let_def split: option.splits prod.splits sum.splits)
next
  assume "fst (admin_save_card env now u text b) = MSG_CARD_PUBLISHED"
  then show "\<exists>c. d_category (cur_data (fsm b u)) = Some c \<and> validate_category c"
    by (auto simp: admin_save_card_def session_defs Let_def
        split: option.splits prod.splits sum.splits if_splits)
qed

lemmas upload_defs =
  start_add_card_def admin_receive_title_def admin_receive_video_def admin_save_card_def
  validate_category_def VALID_CATEGORIES_def validate_video_mimetype_def valid_extensions_def
  path_name_def path_suffix_def MAX_TITLE_LENGTH_def MAX_DESCRIPTION_LENGTH_def
  MAX_VIDEO_SIZE_MB_def

lemma titled_bot_eval:
  "fsm_timestamps titled_bot 42 = Some 1010"
  "the_store titled_bot = demo_store"
  "fsm titled_bot 42 =
     \<lparr>cur_state = Some UploadCard_send_video,
      cur_data = empty_data\<lparr>d_category := Some ''pokemon'', d_title := Some ''charizard''\<rparr>\<rparr>"
  by (simp_all add: titled_bot_def upload_defs session_defs demo_bot_def)

lemma videoed_bot_eval:
  "fsm_timestamps videoed_bot 42 = Some 1020"
  "the_store videoed_bot = demo_store"
  "fsm videoed_bot 42 =
     \<lparr>cur_state = Some UploadCard_write_description,
      cur_data = empty_data\<lparr>d_category := Some ''pokemon'', d_title := Some ''charizard'',
                              d_video_id := Some ''file42''\<rparr>\<rparr>"
  by (simp_all add: videoed_bot_def admin_receive_video_def check_fsm_timeout_def
      FSM_TIMEOUT_SECONDS_def titled_bot_eval demo_video_def validate_video_mimetype_def
      valid_extensions_def path_name_def path_suffix_def MAX_VIDEO_SIZE_MB_def py_lower_def
      ascii_lowercase_def ascii_uppercase_def update_data_def set_state_def empty_data_def)

theorem category_whitelist_guard_witness:
  "wf_db (cards_db demo_store)
   \<and> fst (add_card demo_env ''digimon'' ''agumon'' ''file42'' ''a dinosaur'' demo_store) = Inr 2
   \<and> d_category (cur_data (fsm unlisted_category_bot 42)) = Some ''digimon''
   \<and> \<not> validate_category ''digimon''
   \<and> the_store (snd (admin_save_card demo_env 50 42 (Some ''a dinosaur'') unlisted_category_bot))
       = the_store unlisted_category_bot
   \<and> fst (admin_save_card demo_env 1030 42 (Some ''fire lizard'') videoed_bot) = MSG_CARD_PUBLISHED
   \<and> validate_category ''pokemon''"
proof -
  have h1: "wf_db (cards_db demo_store)" by (rule wf_demo_db)
  have h2: "d_category (cur_data (fsm unlisted_category_bot 42)) = Some ''digimon''
            \<and> \<not> validate_category ''digimon''"
    by (simp add: unlisted_category_bot_def validate_category_def VALID_CATEGORIES_def
        demo_bot_def empty_data_def)
  have h3: "fst (admin_save_card demo_env 1030 42 (Some ''fire lizard'') videoed_bot) = MSG_CARD_PUBLISHED"
    by (simp add: admin_save_card_def check_fsm_timeout_def FSM_TIMEOUT_SECONDS_def
        videoed_bot_eval MAX_DESCRIPTION_LENGTH_def validate_category_def VALID_CATEGORIES_def
        add_card_def db_defs demo_defs empty_data_def split: prod.splits)
  have a: "fst (add_card demo_env ''digimon'' ''agumon'' ''file42'' ''a dinosaur'' demo_store) = Inr 2"
    by (simp add: add_card_def db_defs demo_defs)
  from category_whitelist_guard
         [of demo_store demo_env "''digimon''" "''agumon''" "''file42''" "''a dinosaur''"
             unlisted_category_bot 42 50 "Some ''a dinosaur''"]
       h1 h2
  have g1: "the_store (snd (admin_save_card demo_env 50 42 (Some ''a dinosaur'') unlisted_category_bot))
       = the_store unlisted_category_bot"
    by blast
  from category_whitelist_guard
         [of demo_store demo_env "''pokemon''" "''charizard''" "''file42''" "''fire lizard''"
             videoed_bot 42 1030 "Some ''fire lizard''"]
       h3
  have g2: "\<exists>c. d_category (cur_data (fsm videoed_bot 42)) = Some c \<and> validate_category c"
    by blast
  then have "validate_category ''pokemon''"
    by (simp add: videoed_bot_eval empty_data_def)
  with h1 h2 h3 a g1 show ?thesis by simp
qed

text \<open>
  C4 (counterexample). The card added with the title \<^verbatim>\<open>abc\<close> is stored with the title
  \<^verbatim>\<open>Abc\<close>, which is not what the sanitizer returns for \<^verbatim>\<open>abc\<close>.
\<close>

theorem add_get_title_counterexample:
  "validate_category ''pokemon''
   \<and> fst (add_card demo_env ''pokemon'' ''abc'' ''v'' ''d'' demo_store) = Inr 2
   \<and> map_option title (get_card 2 (snd (add_card demo_env ''pokemon'' ''abc'' ''v'' ''d'' demo_store)))
       = Some ''Abc''
   \<and> sanitize_text ''abc'' None False = ''abc''
   \<and> map_option title (get_card 2 (snd (add_card demo_env ''pokemon'' ''abc'' ''v'' ''d'' demo_store)))
       \<noteq> Some (sanitize_text ''abc'' None False)"
proof -
  have t: "sanitize_text (py_title (py_strip ''abc'')) None False = ''Abc''"
    by (simp add: text_defs)
  have s: "sanitize_text ''abc'' None False = ''abc''"
    by (simp add: text_defs)
  have a: "add_card demo_env ''pokemon'' ''abc'' ''v'' ''d'' demo_store =
     (Inr 2, \<lparr>cards_db = \<lparr>docs = [(1, demo_card),
                 (2, \<lparr>category = ''pokemon'', title = ''Abc'', video_id = ''v'',
                      description = format_description ''d'', reviews = []\<rparr>)],
               next_id = Some 3\<rparr>,
              backup_dir = backup_database demo_env []\<rparr>)"
    by (simp add: add_card_def t db_insert_def get_next_id_def doc_ids_def demo_db_def demo_store_def)
  show ?thesis
    by (simp add: a s get_card_def db_get_def validate_category_def VALID_CATEGORIES_def)
qed

text \<open>
  C4 (amended). On a well-formed table, \<^verbatim>\<open>add_card\<close> returns an id, and
  \<^verbatim>\<open>get_card\<close> on that id gives a card whose title is the sanitizer's output on the
  given title stripped and put in title case (\<^verbatim>\<open>title.strip().title()\<close>), whose
  description is \<^verbatim>\<open>format_description\<close> of the given description, with the given
  category and media reference and no reviews.
\<close>

theorem add_then_get:
  assumes "wf_db (cards_db s)"
  shows "\<exists>i. fst (add_card env cat ttl vid descr s) = Inr i
           \<and> get_card i (snd (add_card env cat ttl vid descr s)) =
               Some \<lparr>category = cat, title = sanitize_text (py_title (py_strip ttl)) None False,
                     video_id = vid, description = format_description descr, reviews = []\<rparr>"
  using add_card_inserts [OF assms, of env cat ttl vid descr] by blast

theorem add_then_get_witness:
  "wf_db (cards_db demo_store)
   \<and> fst (add_card demo_env ''pokemon'' ''raichu'' ''v'' ''big mouse'' demo_store) = Inr 2
   \<and> get_card 2 (snd (add_card demo_env ''pokemon'' ''raichu'' ''v'' ''big mouse'' demo_store)) =
         Some \<lparr>category = ''pokemon'', title = ''Raichu'', video_id = ''v'',
               description = ''Big mouse'', reviews = []\<rparr>"
proof -
  have t: "sanitize_text (py_title (py_strip ''raichu'')) None False = ''Raichu''"
    by (simp add: text_defs)
  have d: "format_description ''big mouse'' = ''Big mouse''"
    by (simp add: text_defs)
  have a: "fst (add_card demo_env ''pokemon'' ''raichu'' ''v'' ''big mouse'' demo_store) = Inr 2"
    by (simp add: add_card_def db_insert_def get_next_id_def doc_ids_def demo_db_def demo_store_def)
  from add_then_get [OF wf_demo_db, of demo_env "''pokemon''" "''raichu''" "''v''" "''big mouse''"] a
  show ?thesis by (simp add: t d wf_demo_db)
qed

section \<open>Sessions\<close>

lemmas review_flow_defs =
  start_review_def select_rating_def skip_comment_def save_review_with_comment_def
  add_review_from_session_def store_add_review_def get_card_str_def get_card_def
  check_review_rate_limit_def REVIEW_RATE_LIMIT_MAX_def REVIEW_RATE_LIMIT_WINDOW_def
  py_split.simps

lemma stale_session_bot_eval:
  "fsm_timestamps stale_session_bot 7 = Some 100"
  "the_store stale_session_bot = demo_store"
  "fsm stale_session_bot 7 =
     \<lparr>cur_state = Some LeaveReview_write_comment,
      cur_data = empty_data\<lparr>d_category := Some ''pokemon'', d_card_id := Some ''1'',
                              d_card_title := Some ''Pikachu'', d_rating := Some 5\<rparr>\<rparr>"
  by (simp_all add: stale_session_bot_def review_flow_defs upload_defs session_defs parse_defs
      py_strip_def py_isspace_def db_defs demo_defs Let_def)

text \<open>
  C8 (counterexample). User 7 has a session in the review workflow and a last-action
  time of 100. The event \<^verbatim>\<open>comment_skip\<close> arrives at time 100000, far more than the
  timeout later; it is not rejected: the review is saved. And admin 42, in the upload
  workflow with the title collected and a last-action time of 1010, sends a message
  without a video: whenever it arrives, \<^verbatim>\<open>admin_video_error\<close> answers that a video is
  required and the session, title included, stays.
\<close>

theorem stale_review_session_counterexample:
  "fsm_timestamps stale_session_bot 7 = Some 100
   \<and> cur_state (fsm stale_session_bot 7) = Some LeaveReview_write_comment
   \<and> 100000 - 100 > FSM_TIMEOUT_SECONDS
   \<and> fst (skip_comment 100000 7 stale_session_bot) = Inr MSG_REVIEW_SAVED
   \<and> map rating (reviews_of (cards_db (the_store (snd (skip_comment 100000 7 stale_session_bot)))) 1)
       = [5]
   \<and> fsm_timestamps titled_bot 42 = Some 1010
   \<and> cur_state (fsm titled_bot 42) = Some UploadCard_send_video
   \<and> admin_video_error 42 titled_bot = (WARN_VIDEO_REQUIRED, titled_bot)"
  by (simp add: stale_session_bot_eval FSM_TIMEOUT_SECONDS_def skip_comment_def
      add_review_from_session_def store_add_review_def parse_defs py_strip_def py_isspace_def
      db_defs demo_defs state_clear_def empty_data_def text_defs titled_bot_eval
      admin_video_error_def)

text \<open>
  C8 (amended). \<^verbatim>\<open>check_fsm_timeout\<close> is called first by the handlers of the admin
  card workflows: the three steps of the upload (\<^verbatim>\<open>admin_receive_title\<close>,
  \<^verbatim>\<open>admin_receive_video\<close>, \<^verbatim>\<open>admin_save_card\<close>) and the receiving step of each
  update (\<^verbatim>\<open>receive_updated_video\<close>, \<^verbatim>\<open>receive_updated_title\<close>,
  \<^verbatim>\<open>receive_updated_description\<close>). When the user's recorded last-action time is
  positive and more than \<^verbatim>\<open>FSM_TIMEOUT_SECONDS\<close> before now, the session is cleared
  (no state, no data), the recorded time is removed, and each of these six handlers
  answers that the session has expired and does nothing else; when the recorded time is
  at most the timeout before now, the check passes, sets the recorded time to now and
  leaves the session as it is.
\<close>

theorem fsm_timeout_check:
  "(fsm_timestamps b u = Some t0 \<and> 0 < t0 \<and> now - t0 > FSM_TIMEOUT_SECONDS \<longrightarrow>
      check_fsm_timeout now u b =
        (False, b\<lparr>fsm := (fsm b)(u := cleared), fsm_timestamps := (fsm_timestamps b)(u := None)\<rparr>)
      \<and> admin_receive_title now u text b =
        (WARN_SESSION_EXPIRED,
         b\<lparr>fsm := (fsm b)(u := cleared), fsm_timestamps := (fsm_timestamps b)(u := None)\<rparr>)
      \<and> admin_receive_video now u v b =
        (WARN_SESSION_EXPIRED,
         b\<lparr>fsm := (fsm b)(u := cleared), fsm_timestamps := (fsm_timestamps b)(u := None)\<rparr>)
      \<and> admin_save_card env now u text b =
        (WARN_SESSION_EXPIRED,
         b\<lparr>fsm := (fsm b)(u := cleared), fsm_timestamps := (fsm_timestamps b)(u := None)\<rparr>)
      \<and> receive_updated_video env now u v b =
        (WARN_SESSION_EXPIRED,
         b\<lparr>fsm := (fsm b)(u := cleared), fsm_timestamps := (fsm_timestamps b)(u := None)\<rparr>)
      \<and> receive_updated_title env now u txt b =
        (WARN_SESSION_EXPIRED,
         b\<lparr>fsm := (fsm b)(u := cleared), fsm_timestamps := (fsm_timestamps b)(u := None)\<rparr>)
      \<and> receive_updated_description env now u txt b =
        (WARN_SESSION_EXPIRED,
         b\<lparr>fsm := (fsm b)(u := cleared), fsm_timestamps := (fsm_timestamps b)(u := None)\<rparr>))
   \<and> (fsm_timestamps b u = Some t0 \<and> now - t0 \<le> FSM_TIMEOUT_SECONDS \<longrightarrow>
      check_fsm_timeout now u b = (True, b\<lparr>fsm_timestamps := (fsm_timestamps b)(u \<mapsto> now)\<rparr>))"
  by (simp add: check_fsm_timeout_def admin_receive_title_def admin_receive_video_def
      admin_save_card_def receive_updated_video_def receive_updated_title_def
      receive_updated_description_def pop_timestamp_def state_clear_def)

lemma retitling_bot_eval:
  "fsm_timestamps retitling_bot 42 = Some 2000"
  "the_store retitling_bot = demo_store"
  "fsm retitling_bot 42 =
     \<lparr>cur_state = Some UpdateCardTitle_write_title,
      cur_data = empty_data\<lparr>d_category := Some ''pokemon'', d_card_id := Some ''1''\<rparr>\<rparr>"
  by (simp_all add: retitling_bot_def start_update_title_def start_update_def get_card_str_def
      get_card_def parse_defs py_strip_def py_isspace_def db_defs demo_defs session_defs Let_def)

theorem fsm_timeout_check_witness:
  "fsm_timestamps titled_bot 42 = Some 1010 \<and> (0::real) < 1010
   \<and> 1400 - 1010 > FSM_TIMEOUT_SECONDS
   \<and> d_title (cur_data (fsm titled_bot 42)) = Some ''charizard''
   \<and> fst (admin_receive_video 1400 42 demo_video titled_bot) = WARN_SESSION_EXPIRED
   \<and> fsm (snd (admin_receive_video 1400 42 demo_video titled_bot)) 42 = cleared
   \<and> d_title (cur_data (fsm (snd (admin_receive_video 1400 42 demo_video titled_bot)) 42)) = None
   \<and> 1200 - 1010 \<le> FSM_TIMEOUT_SECONDS
   \<and> fsm_timestamps (snd (check_fsm_timeout 1200 42 titled_bot)) 42 = Some 1200
   \<and> fsm (snd (check_fsm_timeout 1200 42 titled_bot)) 42 = fsm titled_bot 42
   \<and> fsm_timestamps retitling_bot 42 = Some 2000
   \<and> cur_state (fsm retitling_bot 42) = Some UpdateCardTitle_write_title
   \<and> fst (receive_updated_title demo_env 2400 42 ''raichu'' retitling_bot) = WARN_SESSION_EXPIRED
   \<and> fsm (snd (receive_updated_title demo_env 2400 42 ''raichu'' retitling_bot)) 42 = cleared
   \<and> the_store (snd (receive_updated_title demo_env 2400 42 ''raichu'' retitling_bot)) = demo_store"
proof -
  have h: "fsm_timestamps titled_bot 42 = Some 1010" by (rule titled_bot_eval(1))
  have late: "1400 - 1010 > FSM_TIMEOUT_SECONDS" and soon: "1200 - 1010 \<le> FSM_TIMEOUT_SECONDS"
    and late2: "2400 - 2000 > FSM_TIMEOUT_SECONDS"
    by (simp_all add: FSM_TIMEOUT_SECONDS_def)
  from fsm_timeout_check [of titled_bot 42 1010 1400 None demo_video demo_env "''raichu''"] h late
  have e: "admin_receive_video 1400 42 demo_video titled_bot =
        (WARN_SESSION_EXPIRED,
         titled_bot\<lparr>fsm := (fsm titled_bot)(42 := cleared),
                    fsm_timestamps := (fsm_timestamps titled_bot)(42 := None)\<rparr>)"
    by simp
  from fsm_timeout_check [of titled_bot 42 1010 1200 None demo_video demo_env "''raichu''"] h soon
  have k: "check_fsm_timeout 1200 42 titled_bot =
        (True, titled_bot\<lparr>fsm_timestamps := (fsm_timestamps titled_bot)(42 \<mapsto> 1200)\<rparr>)"
    by simp
  from fsm_timeout_check [of retitling_bot 42 2000 2400 None demo_video demo_env "''raichu''"]
       retitling_bot_eval(1) late2
  have r: "receive_updated_title demo_env 2400 42 ''raichu'' retitling_bot =
        (WARN_SESSION_EXPIRED,
         retitling_bot\<lparr>fsm := (fsm retitling_bot)(42 := cleared),
                       fsm_timestamps := (fsm_timestamps retitling_bot)(42 := None)\<rparr>)"
    by simp
  show ?thesis
    using h late soon
    by (simp add: e k r titled_bot_eval(3) retitling_bot_eval cleared_def empty_data_def)
qed

section \<open>Ratings\<close>

text \<open>
  C9 (the code at the failing input). User 7 starts a review of card 1, sends the
  callback data \<^verbatim>\<open>rate_9\<close> and skips the comment: the handlers accept it and card 1
  gets a review with the rating 9. \<^verbatim>\<open>add_review\<close> called with the rating 9 stores it
  as well.
\<close>

theorem forged_rating_stored:
  "d_rating (cur_data (fsm forged_rating_bot 7)) = Some 9
   \<and> fst (skip_comment 120 7 forged_rating_bot) = Inr MSG_REVIEW_SAVED
   \<and> map rating (reviews_of (cards_db (the_store (snd (skip_comment 120 7 forged_rating_bot)))) 1)
       = [9]
   \<and> map rating (reviews_of (snd (add_review 120 1 7 9 [] demo_db)) 1) = [9]"
proof -
  have b: "the_store forged_rating_bot = demo_store"
    "fsm forged_rating_bot 7 =
       \<lparr>cur_state = Some LeaveReview_write_comment,
        cur_data = empty_data\<lparr>d_card_id := Some ''1'', d_card_title := Some ''Pikachu'',
                                d_rating := Some 9\<rparr>\<rparr>"
    by (simp_all add: forged_rating_bot_def review_flow_defs session_defs parse_defs
        py_strip_def py_isspace_def db_defs demo_defs Let_def)
  show ?thesis
    by (simp add: b skip_comment_def add_review_from_session_def store_add_review_def parse_defs
        py_strip_def py_isspace_def db_defs demo_defs state_clear_def empty_data_def text_defs)
qed

section \<open>Rate limiters\<close>

lemma check_rate_limit_kept:
  "snd (check_rate_limit now u reg) u =
     (if length (filter (\<lambda>t. now - t < RATE_LIMIT_WINDOW) (reg u)) \<ge> RATE_LIMIT_MAX_MESSAGES
      then filter (\<lambda>t. now - t < RATE_LIMIT_WINDOW) (reg u)
      else filter (\<lambda>t. now - t < RATE_LIMIT_WINDOW) (reg u) @ [now])"
  by (simp add: check_rate_limit_def Let_def)

lemma fold_min_le_init: "fold min xs (a::real) \<le> a"
  by (induction xs arbitrary: a) (auto intro: order_trans [OF _ min.cobounded2])

lemma fold_min_eq_Min: "fold min xs (a::real) = Min (insert a (set xs))"
proof (induction xs arbitrary: a)
  case Nil
  then show ?case by simp
next
  case (Cons x xs)
  have "fold min (x # xs) a = Min (insert (min x a) (set xs))"
    using Cons [of "min x a"] by simp
  also have "\<dots> = Min (insert a (insert x (set xs)))"
    by (cases "set xs = {}") (auto simp: min.commute min.left_commute)
  finally show ?case by simp
qed

lemma py_min_nonempty: "xs \<noteq> [] \<Longrightarrow> py_min xs = Inr (Min (set xs))"
  by (cases xs) (simp_all add: py_min_def fold_min_eq_Min)

lemma six_calls:
  assumes "reg u = []" "t1 \<le> t2" "t2 \<le> t3" "t3 \<le> t4" "t4 \<le> t5" "t5 \<le> t6"
    and "t6 - t1 < RATE_LIMIT_WINDOW"
  shows "fst (rate_limit_calls [t1, t2, t3, t4, t5, t6] u reg) = [True, True, True, True, True, False]"
    and "snd (rate_limit_calls [t1, t2, t3, t4, t5, t6] u reg) u = [t1, t2, t3, t4, t5]"
  using assms
  by (simp_all add: check_rate_limit_def RATE_LIMIT_WINDOW_def RATE_LIMIT_MAX_MESSAGES_def)

lemma seventh_call:
  assumes "reg u = []" "t1 \<le> t2" "t2 \<le> t3" "t3 \<le> t4" "t4 \<le> t5" "t5 \<le> t6"
    and "t6 - t1 < RATE_LIMIT_WINDOW" and "t7 - t1 \<ge> RATE_LIMIT_WINDOW"
  shows "fst (rate_limit_calls [t1, t2, t3, t4, t5, t6, t7] u reg) =
           [True, True, True, True, True, False, True]"
proof -
  obtain oks reg6 where six: "rate_limit_calls [t1, t2, t3, t4, t5, t6] u reg = (oks, reg6)"
    by (cases "rate_limit_calls [t1, t2, t3, t4, t5, t6] u reg")
  from six_calls [of reg u t1 t2 t3 t4 t5 t6] assms(1-7) six
  have oks: "oks = [True, True, True, True, True, False]" and r6: "reg6 u = [t1, t2, t3, t4, t5]"
    by simp_all
  have app: "rate_limit_calls (xs @ [t]) u r =
      (fst (rate_limit_calls xs u r) @ [fst (check_rate_limit t u (snd (rate_limit_calls xs u r)))],
       snd (check_rate_limit t u (snd (rate_limit_calls xs u r))))" for xs t r
    by (induction xs arbitrary: r) (simp_all add: case_prod_beta Let_def)
  have "length (filter (\<lambda>t. t7 - t < RATE_LIMIT_WINDOW) [t1, t2, t3, t4, t5]) \<le> 4"
    using assms(8) by simp
  then have last: "fst (check_rate_limit t7 u reg6) = True"
    using r6 by (simp add: check_rate_limit_def RATE_LIMIT_MAX_MESSAGES_def Let_def)
  have "rate_limit_calls [t1, t2, t3, t4, t5, t6, t7] u reg =
        rate_limit_calls ([t1, t2, t3, t4, t5, t6] @ [t7]) u reg"
    by simp
  also have "fst \<dots> = oks @ [fst (check_rate_limit t7 u reg6)]"
    unfolding app using six by simp
  finally show ?thesis using oks last by simp
qed

text \<open>
  C7. Both limiters first drop from the user's list every time stamp \<open>t\<close> with
  \<open>now - t\<close> not below the window (so none older than now minus the window stays). If
  the number kept is at least the maximum, the call is rejected and the kept list is
  stored without \<open>now\<close>; the review limiter then also returns the whole seconds until
  the oldest kept time stamp leaves the window. Otherwise \<open>now\<close> is appended and the
  call is accepted. With the message limiter's maximum 5 and window 5 seconds: of six
  calls within the window, from an empty list, the first five are accepted and the
  sixth rejected; a call once the window has passed since the first is accepted again.
\<close>

theorem sliding_window_limiters:
  "(\<forall>t \<in> set (reg u). t < now - RATE_LIMIT_WINDOW \<longrightarrow> t \<notin> set (snd (check_rate_limit now u reg) u))
   \<and> (length (filter (\<lambda>t. now - t < RATE_LIMIT_WINDOW) (reg u)) \<ge> RATE_LIMIT_MAX_MESSAGES \<longrightarrow>
        check_rate_limit now u reg =
          (False, reg(u := filter (\<lambda>t. now - t < RATE_LIMIT_WINDOW) (reg u))))
   \<and> (length (filter (\<lambda>t. now - t < RATE_LIMIT_WINDOW) (reg u)) < RATE_LIMIT_MAX_MESSAGES \<longrightarrow>
        check_rate_limit now u reg =
          (True, reg(u := filter (\<lambda>t. now - t < RATE_LIMIT_WINDOW) (reg u) @ [now])))
   \<and> (\<forall>t \<in> set (reg u). t < now - REVIEW_RATE_LIMIT_WINDOW \<longrightarrow>
          t \<notin> set (snd (check_review_rate_limit now u reg) u))
   \<and> (length (filter (\<lambda>t. now - t < REVIEW_RATE_LIMIT_WINDOW) (reg u)) \<ge> REVIEW_RATE_LIMIT_MAX \<longrightarrow>
        check_review_rate_limit now u reg =
          (Inr (False,
                \<lfloor>Min (set (filter (\<lambda>t. now - t < REVIEW_RATE_LIMIT_WINDOW) (reg u)))
                   + REVIEW_RATE_LIMIT_WINDOW - now\<rfloor>),
           reg(u := filter (\<lambda>t. now - t < REVIEW_RATE_LIMIT_WINDOW) (reg u)))
        \<and> 0 < Min (set (filter (\<lambda>t. now - t < REVIEW_RATE_LIMIT_WINDOW) (reg u)))
                + REVIEW_RATE_LIMIT_WINDOW - now)
   \<and> (length (filter (\<lambda>t. now - t < REVIEW_RATE_LIMIT_WINDOW) (reg u)) < REVIEW_RATE_LIMIT_MAX \<longrightarrow>
        check_review_rate_limit now u reg =
          (Inr (True, 0), reg(u := filter (\<lambda>t. now - t < REVIEW_RATE_LIMIT_WINDOW) (reg u) @ [now])))
   \<and> (reg u = [] \<and> t1 \<le> t2 \<and> t2 \<le> t3 \<and> t3 \<le> t4 \<and> t4 \<le> t5 \<and> t5 \<le> t6
        \<and> t6 - t1 < RATE_LIMIT_WINDOW \<longrightarrow>
        fst (rate_limit_calls [t1, t2, t3, t4, t5, t6] u reg) = [True, True, True, True, True, False]
        \<and> (t7 - t1 \<ge> RATE_LIMIT_WINDOW \<longrightarrow>
             fst (rate_limit_calls [t1, t2, t3, t4, t5, t6, t7] u reg) =
               [True, True, True, True, True, False, True]))"
proof (intro conjI)
  show "\<forall>t \<in> set (reg u). t < now - RATE_LIMIT_WINDOW \<longrightarrow> t \<notin> set (snd (check_rate_limit now u reg) u)"
    by (auto simp: check_rate_limit_kept RATE_LIMIT_WINDOW_def)
  show "length (filter (\<lambda>t. now - t < RATE_LIMIT_WINDOW) (reg u)) \<ge> RATE_LIMIT_MAX_MESSAGES \<longrightarrow>
        check_rate_limit now u reg =
          (False, reg(u := filter (\<lambda>t. now - t < RATE_LIMIT_WINDOW) (reg u)))"
    by (simp add: check_rate_limit_def Let_def)
  show "length (filter (\<lambda>t. now - t < RATE_LIMIT_WINDOW) (reg u)) < RATE_LIMIT_MAX_MESSAGES \<longrightarrow>
        check_rate_limit now u reg =
          (True, reg(u := filter (\<lambda>t. now - t < RATE_LIMIT_WINDOW) (reg u) @ [now]))"
    by (simp add: check_rate_limit_def Let_def)
  show "\<forall>t \<in> set (reg u). t < now - REVIEW_RATE_LIMIT_WINDOW \<longrightarrow>
          t \<notin> set (snd (check_review_rate_limit now u reg) u)"
    by (auto simp: check_review_rate_limit_def Let_def REVIEW_RATE_LIMIT_WINDOW_def
        split: sum.splits)
  show "length (filter (\<lambda>t. now - t < REVIEW_RATE_LIMIT_WINDOW) (reg u)) \<ge> REVIEW_RATE_LIMIT_MAX \<longrightarrow>
        check_review_rate_limit now u reg =
          (Inr (False,
                \<lfloor>Min (set (filter (\<lambda>t. now - t < REVIEW_RATE_LIMIT_WINDOW) (reg u)))
                   + REVIEW_RATE_LIMIT_WINDOW - now\<rfloor>),
           reg(u := filter (\<lambda>t. now - t < REVIEW_RATE_LIMIT_WINDOW) (reg u)))
        \<and> 0 < Min (set (filter (\<lambda>t. now - t < REVIEW_RATE_LIMIT_WINDOW) (reg u)))
                + REVIEW_RATE_LIMIT_WINDOW - now"
  proof
    let ?kept = "filter (\<lambda>t. now - t < REVIEW_RATE_LIMIT_WINDOW) (reg u)"
    assume full: "length ?kept \<ge> REVIEW_RATE_LIMIT_MAX"
    then have ne: "?kept \<noteq> []"
      by (auto simp: REVIEW_RATE_LIMIT_MAX_def)
    then have "set ?kept \<noteq> {}"
      unfolding set_empty .
    then have "Min (set ?kept) \<in> set ?kept"
      by (rule Min_in [OF finite_set])
    then have pos: "0 < Min (set ?kept) + REVIEW_RATE_LIMIT_WINDOW - now"
      by auto
    then have "py_int_of_float (REVIEW_RATE_LIMIT_WINDOW - (now - Min (set ?kept))) =
        \<lfloor>Min (set ?kept) + REVIEW_RATE_LIMIT_WINDOW - now\<rfloor>"
      by (simp add: py_int_of_float_def algebra_simps)
    with full pos py_min_nonempty [OF ne]
    show "check_review_rate_limit now u reg =
          (Inr (False, \<lfloor>Min (set ?kept) + REVIEW_RATE_LIMIT_WINDOW - now\<rfloor>), reg(u := ?kept))
        \<and> 0 < Min (set ?kept) + REVIEW_RATE_LIMIT_WINDOW - now"
      by (simp add: check_review_rate_limit_def Let_def)
  qed
  show "length (filter (\<lambda>t. now - t < REVIEW_RATE_LIMIT_WINDOW) (reg u)) < REVIEW_RATE_LIMIT_MAX \<longrightarrow>
        check_review_rate_limit now u reg =
          (Inr (True, 0), reg(u := filter (\<lambda>t. now - t < REVIEW_RATE_LIMIT_WINDOW) (reg u) @ [now]))"
    by (simp add: check_review_rate_limit_def Let_def)
  show "reg u = [] \<and> t1 \<le> t2 \<and> t2 \<le> t3 \<and> t3 \<le> t4 \<and> t4 \<le> t5 \<and> t5 \<le> t6
        \<and> t6 - t1 < RATE_LIMIT_WINDOW \<longrightarrow>
        fst (rate_limit_calls [t1, t2, t3, t4, t5, t6] u reg) = [True, True, True, True, True, False]
        \<and> (t7 - t1 \<ge> RATE_LIMIT_WINDOW \<longrightarrow>
             fst (rate_limit_calls [t1, t2, t3, t4, t5, t6, t7] u reg) =
               [True, True, True, True, True, False, True])"
    using six_calls(1) [of reg u t1 t2 t3 t4 t5 t6] seventh_call [of reg u t1 t2 t3 t4 t5 t6 t7]
    by blast
qed

theorem sliding_window_limiters_witness:
  "check_rate_limit 102 7 message_registry = (True, message_registry(7 := [98, 99, 100, 101, 102]))
   \<and> check_rate_limit 101 7 message_registry =
        (False, message_registry(7 := [97, 98, 99, 100, 101]))
   \<and> check_review_rate_limit 100 7 review_registry =
        (Inr (False, 3510), review_registry(7 := [10, 20, 30]))
   \<and> check_review_rate_limit 3625 7 review_registry =
        (Inr (True, 0), review_registry(7 := [30, 3625]))
   \<and> fst (rate_limit_calls [0, 1, 2, 3, 4, 4, 5] 7 (\<lambda>u. [])) =
        [True, True, True, True, True, False, True]"
proof -
  have k1: "filter (\<lambda>t. 102 - t < RATE_LIMIT_WINDOW) (message_registry 7) = [98, 99, 100, 101]"
    by (simp add: message_registry_def RATE_LIMIT_WINDOW_def)
  have k2: "filter (\<lambda>t. 101 - t < RATE_LIMIT_WINDOW) (message_registry 7) = [97, 98, 99, 100, 101]"
    by (simp add: message_registry_def RATE_LIMIT_WINDOW_def)
  have k3: "filter (\<lambda>t. 100 - t < REVIEW_RATE_LIMIT_WINDOW) (review_registry 7) = [10, 20, 30]"
    by (simp add: review_registry_def REVIEW_RATE_LIMIT_WINDOW_def)
  have k4: "filter (\<lambda>t. 3625 - t < REVIEW_RATE_LIMIT_WINDOW) (review_registry 7) = [30]"
    by (simp add: review_registry_def REVIEW_RATE_LIMIT_WINDOW_def)
  have m3: "Min (set [10, 20, 30 :: real]) = 10"
    by simp
  note a = sliding_window_limiters [of message_registry 7 102 0 1 2 3 4 4 5]
  note b = sliding_window_limiters [of message_registry 7 101 0 1 2 3 4 4 5]
  note c = sliding_window_limiters [of review_registry 7 100 0 1 2 3 4 4 5]
  note d = sliding_window_limiters [of review_registry 7 3625 0 1 2 3 4 4 5]
  note e = sliding_window_limiters [of "\<lambda>u. []" 7 0 0 1 2 3 4 4 5]
  have r1: "check_rate_limit 102 7 message_registry = (True, message_registry(7 := [98, 99, 100, 101, 102]))"
    using a unfolding k1 by (simp add: RATE_LIMIT_MAX_MESSAGES_def)
  have r2: "check_rate_limit 101 7 message_registry =
        (False, message_registry(7 := [97, 98, 99, 100, 101]))"
    using b unfolding k2 by (simp add: RATE_LIMIT_MAX_MESSAGES_def)
  have r3: "check_review_rate_limit 100 7 review_registry =
        (Inr (False, 3510), review_registry(7 := [10, 20, 30]))"
    using c unfolding k3 m3 by (simp add: REVIEW_RATE_LIMIT_MAX_def REVIEW_RATE_LIMIT_WINDOW_def)
  have r4: "check_review_rate_limit 3625 7 review_registry =
        (Inr (True, 0), review_registry(7 := [30, 3625]))"
    using d unfolding k4 by (simp add: REVIEW_RATE_LIMIT_MAX_def)
  have r5: "fst (rate_limit_calls [0, 1, 2, 3, 4, 4, 5] 7 (\<lambda>u. [])) =
        [True, True, True, True, True, False, True]"
    using e by (simp add: RATE_LIMIT_WINDOW_def)
  from r1 r2 r3 r4 r5 show ?thesis by simp
qed

section \<open>Average rating\<close>








section \<open>Backup rotation\<close>

lemma length_filter_not_dropped: "length (filter (\<lambda>f. f \<notin> set (drop n xs)) xs) \<le> n"
proof -
  have "filter (\<lambda>f. f \<notin> set (drop n xs)) xs =
        filter (\<lambda>f. f \<notin> set (drop n xs)) (take n xs) @ filter (\<lambda>f. f \<notin> set (drop n xs)) (drop n xs)"
    by (metis append_take_drop_id filter_append)
  also have "filter (\<lambda>f. f \<notin> set (drop n xs)) (drop n xs) = []"
    by (simp add: filter_empty_conv)
  finally have eq: "filter (\<lambda>f. f \<notin> set (drop n xs)) xs =
        filter (\<lambda>f. f \<notin> set (drop n xs)) (take n xs)"
    by simp
  have "length (filter (\<lambda>f. f \<notin> set (drop n xs)) (take n xs)) \<le> n"
    by (rule order_trans [OF length_filter_le]) simp
  then show ?thesis by (subst eq)
qed

lemma length_filter_perm:
  assumes "mset xs = mset ys"
  shows "length (filter P xs) = length (filter P ys)"
proof -
  have "mset (filter P xs) = mset (filter P ys)"
    using assms by simp
  then have "size (mset (filter P xs)) = size (mset (filter P ys))"
    by (rule arg_cong)
  then show ?thesis by (simp only: size_mset)
qed

lemma mset_sorted_backups: "mset (sorted_backups dir) = mset (snapshots dir)"
  by (simp add: sorted_backups_def snapshots_def)

lemma snapshots_filter: "snapshots (filter Q dir) = filter Q (snapshots dir)"
  by (simp add: snapshots_def conj_commute)

lemma backup_database_copied:
  assumes "copy_result env = Copied"
  shows "backup_database env dir =
     filter (\<lambda>f. \<not> (f \<in> set (drop MAX_BACKUPS_KEPT
                (sorted_backups (if backup_file_name (stamp env) \<in> set dir then dir
                                 else dir @ [backup_file_name (stamp env)]))) \<and> unlink_ok env f))
       (if backup_file_name (stamp env) \<in> set dir then dir else dir @ [backup_file_name (stamp env)])"
  using assms by (simp add: backup_database_def Let_def)

lemma backup_database_all_ok:
  assumes "copy_result env = Copied" and "\<And>f. unlink_ok env f"
  shows "backup_database env dir =
     filter (\<lambda>f. f \<notin> set (drop MAX_BACKUPS_KEPT
                (sorted_backups (if backup_file_name (stamp env) \<in> set dir then dir
                                 else dir @ [backup_file_name (stamp env)]))))
       (if backup_file_name (stamp env) \<in> set dir then dir else dir @ [backup_file_name (stamp env)])"
  using assms by (simp add: backup_database_def Let_def)

lemma backup_database_bound:
  assumes "copy_result env = Copied" and "\<And>f. unlink_ok env f"
  shows "length (snapshots (backup_database env dir)) \<le> MAX_BACKUPS_KEPT"
proof -
  let ?dir1 = "if backup_file_name (stamp env) \<in> set dir then dir else dir @ [backup_file_name (stamp env)]"
  let ?xs = "sorted_backups ?dir1"
  let ?P = "\<lambda>f. f \<notin> set (drop MAX_BACKUPS_KEPT ?xs)"
  have "snapshots (backup_database env dir) = filter ?P (snapshots ?dir1)"
    unfolding backup_database_all_ok [OF assms] by (rule snapshots_filter)
  then have "length (snapshots (backup_database env dir)) = length (filter ?P ?xs)"
    using length_filter_perm [OF mset_sorted_backups, of ?P ?dir1] by simp
  also have "\<dots> \<le> MAX_BACKUPS_KEPT"
    by (rule length_filter_not_dropped)
  finally show ?thesis .
qed

lemma backup_database_retained:
  assumes "copy_result env = Copied" and "\<And>f. unlink_ok env f" and "distinct dir"
  shows "sorted_backups (backup_database env dir) =
     take MAX_BACKUPS_KEPT
       (sorted_backups (if backup_file_name (stamp env) \<in> set dir then dir
                        else dir @ [backup_file_name (stamp env)]))"
proof -
  let ?dir1 = "if backup_file_name (stamp env) \<in> set dir then dir else dir @ [backup_file_name (stamp env)]"
  let ?xs = "sorted_backups ?dir1"
  let ?n = MAX_BACKUPS_KEPT
  let ?P = "\<lambda>f. f \<notin> set (drop ?n ?xs)"
  have d1: "distinct ?dir1" using assms(3) by simp
  then have dxs: "distinct ?xs"
    by (simp add: sorted_backups_def)
  have disj: "set (take ?n ?xs) \<inter> set (drop ?n ?xs) = {}"
    using dxs by (rule set_take_disj_set_drop_if_distinct) simp
  have keep: "filter ?P ?xs = take ?n ?xs"
  proof -
    have "filter ?P ?xs = filter ?P (take ?n ?xs) @ filter ?P (drop ?n ?xs)"
      by (metis append_take_drop_id filter_append)
    also have "filter ?P (drop ?n ?xs) = []"
      by (simp add: filter_empty_conv)
    also have "filter ?P (take ?n ?xs) = take ?n ?xs"
      using disj by (intro filter_True) auto
    finally show ?thesis by simp
  qed
  have snap: "snapshots (backup_database env dir) = filter ?P (snapshots ?dir1)"
    unfolding backup_database_all_ok [OF assms(1,2)] by (rule snapshots_filter)
  have "mset (snapshots (backup_database env dir)) = mset (filter ?P ?xs)"
    unfolding snap using mset_sorted_backups [of ?dir1] by simp
  then have m: "mset (rev (take ?n ?xs)) = mset (snapshots (backup_database env dir))"
    using keep by simp
  have "sorted (rev (take ?n ?xs))"
    by (simp add: sorted_backups_def take_rev)
  with m have "sort (snapshots (backup_database env dir)) = rev (take ?n ?xs)"
    by (rule properties_for_sort)
  then show ?thesis
    by (simp add: sorted_backups_def [of "backup_database env dir"] snapshots_def)
qed

lemma apply_mutation_backup_dir:
  "backup_dir (apply_mutation m s) = backup_dir s
   \<or> (\<exists>env. mutation_env m = Some env \<and> backup_dir (apply_mutation m s) = backup_database env (backup_dir s))"
  by (cases m)
     (auto simp: add_card_def delete_card_def update_card_video_def update_card_title_def
        update_card_description_def update_then_backup_def store_add_review_def Let_def
        split: prod.splits sum.splits)

lemma backup_database_keeps_bound:
  assumes "\<And>f. unlink_ok env f" and "copy_result env \<noteq> CreatedThenFailed"
    and "length (snapshots dir) \<le> MAX_BACKUPS_KEPT"
  shows "length (snapshots (backup_database env dir)) \<le> MAX_BACKUPS_KEPT"
proof (cases "copy_result env")
  case Copied
  then show ?thesis using assms(1) by (rule backup_database_bound)
next
  case NotCreated
  then show ?thesis using assms(3) by (simp add: backup_database_def)
next
  case CreatedThenFailed
  with assms(2) show ?thesis by simp
qed

lemma run_mutations_bound:
  assumes "length (snapshots (backup_dir s)) \<le> MAX_BACKUPS_KEPT"
    and "\<And>m env. m \<in> set ms \<Longrightarrow> mutation_env m = Some env \<Longrightarrow>
           copy_result env \<noteq> CreatedThenFailed \<and> (\<forall>f. unlink_ok env f)"
  shows "length (snapshots (backup_dir (run_mutations ms s))) \<le> MAX_BACKUPS_KEPT"
  using assms
proof (induction ms arbitrary: s)
  case Nil
  then show ?case by (simp add: run_mutations_def)
next
  case (Cons m ms)
  have step: "length (snapshots (backup_dir (apply_mutation m s))) \<le> MAX_BACKUPS_KEPT"
  proof -
    from apply_mutation_backup_dir [of m s] show ?thesis
    proof
      assume "backup_dir (apply_mutation m s) = backup_dir s"
      with Cons.prems(1) show ?thesis by simp
    next
      assume "\<exists>env. mutation_env m = Some env
                \<and> backup_dir (apply_mutation m s) = backup_database env (backup_dir s)"
      then obtain env where e: "mutation_env m = Some env"
        "backup_dir (apply_mutation m s) = backup_database env (backup_dir s)" by blast
      have ok: "copy_result env \<noteq> CreatedThenFailed \<and> (\<forall>f. unlink_ok env f)"
        using Cons.prems(2) [of m env] e(1) by simp
      show ?thesis
        unfolding e(2) using ok Cons.prems(1) by (intro backup_database_keeps_bound) simp_all
    qed
  qed
  have "length (snapshots (backup_dir (run_mutations ms (apply_mutation m s)))) \<le> MAX_BACKUPS_KEPT"
    using step Cons.prems(2) by (intro Cons.IH) auto
  then show ?case by (simp add: run_mutations_def)
qed

lemmas backup_name_defs =
  snapshots_def is_backup_name_def py_startswith_def path_suffix_def backup_file_name_def

lemma five_backups_eval:
  "distinct five_backups" "length (snapshots five_backups) = 5"
  by (simp_all add: five_backups_def backup_name_defs)

text \<open>
  C6 (counterexample). The directory holds five snapshots. With no file deletable,
  \<^verbatim>\<open>update_card_video\<close> completes, its backup adds a sixth snapshot and every
  \<^verbatim>\<open>unlink\<close> fails and is skipped: six snapshots remain. With a copy that raises
  after it has created its file, \<^verbatim>\<open>update_card_video\<close> completes as well and nothing
  is pruned: six snapshots remain, one more than \<^verbatim>\<open>MAX_BACKUPS_KEPT\<close>.
\<close>

theorem backup_bound_counterexample:
  "fst (update_card_video locked_env 1 ''vid2'' full_store) = Inr ()
   \<and> length (snapshots (backup_dir (snd (update_card_video locked_env 1 ''vid2'' full_store)))) = 6
   \<and> fst (update_card_video partial_copy_env 1 ''vid2'' full_store) = Inr ()
   \<and> length (snapshots (backup_dir (snd (update_card_video partial_copy_env 1 ''vid2'' full_store)))) = 6
   \<and> MAX_BACKUPS_KEPT = 5"
  by (simp add: update_card_video_def update_then_backup_def db_update_def doc_ids_def
      full_store_def demo_db_def backup_database_def locked_env_def partial_copy_env_def
      five_backups_def backup_name_defs MAX_BACKUPS_KEPT_def Let_def)

text \<open>
  C6 (amended). A run of \<^verbatim>\<open>backup_database\<close> whose copy completes and in which every
  deletion succeeds leaves at most \<^verbatim>\<open>MAX_BACKUPS_KEPT\<close> snapshot files, and (the
  listing having no name twice) they are the first \<^verbatim>\<open>MAX_BACKUPS_KEPT\<close> of the
  snapshot names, the new one included, sorted descending. When the copy completes, the
  files removed are exactly those beyond the first \<^verbatim>\<open>MAX_BACKUPS_KEPT\<close> whose deletion
  succeeds: a file whose deletion fails stays. A run whose copy raises before its file
  exists leaves the directory as it was. \<^verbatim>\<open>add_card\<close> and the updates run the backup
  after a write that did not raise, \<^verbatim>\<open>delete_card\<close> before the removal. From a
  directory with at most \<^verbatim>\<open>MAX_BACKUPS_KEPT\<close> snapshots, after any sequence of store
  mutations in which every copy completes or leaves no file and every deletion succeeds,
  there are at most \<^verbatim>\<open>MAX_BACKUPS_KEPT\<close> snapshots.
\<close>

theorem backup_rotation_bound:
  "(copy_result env = Copied \<and> (\<forall>f. unlink_ok env f) \<longrightarrow>
      length (snapshots (backup_database env dir)) \<le> MAX_BACKUPS_KEPT
      \<and> (distinct dir \<longrightarrow>
           sorted_backups (backup_database env dir) =
             take MAX_BACKUPS_KEPT
               (sorted_backups (if backup_file_name (stamp env) \<in> set dir then dir
                                else dir @ [backup_file_name (stamp env)]))))
   \<and> (copy_result env = Copied \<longrightarrow>
        set (backup_database env dir) =
          insert (backup_file_name (stamp env)) (set dir)
          - {f \<in> set (drop MAX_BACKUPS_KEPT
                        (sorted_backups (if backup_file_name (stamp env) \<in> set dir then dir
                                         else dir @ [backup_file_name (stamp env)]))).
               unlink_ok env f})
   \<and> (copy_result env = NotCreated \<longrightarrow> backup_database env dir = dir)
   \<and> (fst (add_card env cat ttl vid descr s) = Inr i \<longrightarrow>
        backup_dir (snd (add_card env cat ttl vid descr s)) = backup_database env (backup_dir s))
   \<and> (fst (update_then_backup env g k s) = Inr () \<longrightarrow>
        backup_dir (snd (update_then_backup env g k s)) = backup_database env (backup_dir s))
   \<and> backup_dir (snd (delete_card env k s)) = backup_database env (backup_dir s)
   \<and> (length (snapshots (backup_dir s)) \<le> MAX_BACKUPS_KEPT
        \<and> (\<forall>m \<in> set ms. \<forall>e. mutation_env m = Some e \<longrightarrow>
              copy_result e \<noteq> CreatedThenFailed \<and> (\<forall>f. unlink_ok e f)) \<longrightarrow>
        length (snapshots (backup_dir (run_mutations ms s))) \<le> MAX_BACKUPS_KEPT)"
proof (intro conjI impI)
  assume a: "copy_result env = Copied \<and> (\<forall>f. unlink_ok env f)"
  then show "length (snapshots (backup_database env dir)) \<le> MAX_BACKUPS_KEPT"
    by (intro backup_database_bound) simp_all
  assume "distinct dir"
  with a show "sorted_backups (backup_database env dir) =
             take MAX_BACKUPS_KEPT
               (sorted_backups (if backup_file_name (stamp env) \<in> set dir then dir
                                else dir @ [backup_file_name (stamp env)]))"
    by (intro backup_database_retained) simp_all
next
  assume c: "copy_result env = Copied"
  show "set (backup_database env dir) =
          insert (backup_file_name (stamp env)) (set dir)
          - {f \<in> set (drop MAX_BACKUPS_KEPT
                        (sorted_backups (if backup_file_name (stamp env) \<in> set dir then dir
                                         else dir @ [backup_file_name (stamp env)]))).
               unlink_ok env f}"
    by (subst backup_database_copied [OF c]) auto
next
  assume "copy_result env = NotCreated"
  then show "backup_database env dir = dir"
    by (simp add: backup_database_def)
next
  assume "fst (add_card env cat ttl vid descr s) = Inr i"
  then show "backup_dir (snd (add_card env cat ttl vid descr s)) = backup_database env (backup_dir s)"
    by (simp add: add_card_def Let_def split: prod.splits sum.splits)
next
  assume "fst (update_then_backup env g k s) = Inr ()"
  then show "backup_dir (snd (update_then_backup env g k s)) = backup_database env (backup_dir s)"
    by (simp add: update_then_backup_def Let_def split: prod.splits sum.splits)
next
  show "backup_dir (snd (delete_card env k s)) = backup_database env (backup_dir s)"
    by (simp add: delete_card_def Let_def split: prod.splits)
next
  assume "length (snapshots (backup_dir s)) \<le> MAX_BACKUPS_KEPT
        \<and> (\<forall>m \<in> set ms. \<forall>e. mutation_env m = Some e \<longrightarrow>
              copy_result e \<noteq> CreatedThenFailed \<and> (\<forall>f. unlink_ok e f))"
  then show "length (snapshots (backup_dir (run_mutations ms s))) \<le> MAX_BACKUPS_KEPT"
    by (intro run_mutations_bound) auto
qed

theorem backup_rotation_bound_witness:
  "copy_result demo_env = Copied \<and> distinct five_backups
   \<and> length (snapshots (backup_database demo_env five_backups)) \<le> MAX_BACKUPS_KEPT
   \<and> sorted_backups (backup_database demo_env five_backups) =
       take MAX_BACKUPS_KEPT (sorted_backups (five_backups @ [backup_file_name ''20240106_120000'']))
   \<and> copy_result locked_env = Copied
   \<and> backup_file_name ''20240101_120000'' \<in> set (backup_database locked_env five_backups)
   \<and> fst (add_card demo_env ''magic'' ''black lotus'' ''vid2'' ''a flower'' full_store) = Inr 2
   \<and> fst (update_then_backup demo_env (\<lambda>c. c) 1 full_store) = Inr ()
   \<and> length (snapshots (backup_dir full_store)) \<le> MAX_BACKUPS_KEPT
   \<and> length (snapshots (backup_dir (run_mutations demo_mutations full_store))) \<le> MAX_BACKUPS_KEPT"
proof -
  have h1: "copy_result demo_env = Copied \<and> (\<forall>f. unlink_ok demo_env f)"
    by (simp add: demo_env_def)
  have h2: "distinct five_backups" by (rule five_backups_eval)
  have new: "backup_file_name (stamp demo_env) \<notin> set five_backups"
    "stamp demo_env = ''20240106_120000''"
    by (simp_all add: demo_env_def five_backups_def backup_file_name_def)
  have h3: "fst (add_card demo_env ''magic'' ''black lotus'' ''vid2'' ''a flower'' full_store) = Inr 2"
    by (simp add: add_card_def db_insert_def get_next_id_def doc_ids_def full_store_def demo_db_def)
  have h4: "fst (update_then_backup demo_env (\<lambda>c. c) 1 full_store) = Inr ()"
    by (simp add: update_then_backup_def db_update_def doc_ids_def full_store_def demo_db_def)
  have h5: "length (snapshots (backup_dir full_store)) \<le> MAX_BACKUPS_KEPT"
    by (simp add: full_store_def five_backups_eval MAX_BACKUPS_KEPT_def)
  have h6: "\<forall>m \<in> set demo_mutations. \<forall>e. mutation_env m = Some e \<longrightarrow>
              copy_result e \<noteq> CreatedThenFailed \<and> (\<forall>f. unlink_ok e f)"
    by (simp add: demo_mutations_def demo_env_def)
  have l1: "copy_result locked_env = Copied" "\<And>f. \<not> unlink_ok locked_env f"
    by (simp_all add: locked_env_def)
  have l2: "backup_file_name ''20240101_120000'' \<in> set five_backups"
    by (simp add: five_backups_def)
  from backup_rotation_bound
         [of locked_env five_backups "''magic''" "''black lotus''" "''vid2''" "''a flower''"
             full_store 2 "\<lambda>c. c" 1 demo_mutations]
       l1 l2
  have stays: "backup_file_name ''20240101_120000'' \<in> set (backup_database locked_env five_backups)"
    by simp
  from backup_rotation_bound
         [of demo_env five_backups "''magic''" "''black lotus''" "''vid2''" "''a flower''"
             full_store 2 "\<lambda>c. c" 1 demo_mutations]
       h1 h2 h3 h4 h5 h6 new stays l1(1)
  show ?thesis by simp
qed

end
